theory Spec2Isabelle
  imports Main "HOL-Library.Sublist"
begin

section \<open>Strings and paths\<close>

text \<open>
  Go strings are byte sequences; \<^typ>\<open>string\<close> is a list of 8-bit characters, so
  \<^term>\<open>length\<close> is Go's \<open>len\<close>.

  \<open>strings.Split(s, sep)\<close> is only called with the one-byte separators \<open>"/"\<close> and
  \<open>","\<close>; \<open>Split\<close> takes that byte. As in Go, the result of splitting the empty string
  is the one-element list holding the empty string.
\<close>

fun Split :: "string \<Rightarrow> char \<Rightarrow> string list" where
  "Split [] sep = [[]]"
| "Split (c # cs) sep =
     (if c = sep then [] # Split cs sep
      else (case Split cs sep of
              [] \<Rightarrow> [[c]]
            | p # ps \<Rightarrow> (c # p) # ps))"

definition HasSuffix :: "string \<Rightarrow> string \<Rightarrow> bool" where
  "HasSuffix s suf \<longleftrightarrow>
     length s \<ge> length suf \<and> drop (length s - length suf) s = suf"

definition TrimSuffix :: "string \<Rightarrow> string \<Rightarrow> string" where
  "TrimSuffix s suf =
     (if HasSuffix s suf then take (length s - length suf) s else s)"

text \<open>
  \<open>path.Clean\<close> and \<open>path.Join\<close> of Go's standard library, on the components of the
  path: empty and \<open>.\<close> components are dropped, \<open>..\<close> removes the component before it
  (at the root it is dropped, at the start of a relative path it is kept), the empty
  result is \<open>.\<close>. \<open>path_Join\<close> is \<open>path.Join\<close> of two elements: empty elements are
  ignored, the others are joined with a slash and cleaned, and two empty elements
  give the empty string.
\<close>

fun clean_step :: "bool \<Rightarrow> string list \<Rightarrow> string \<Rightarrow> string list" where
  "clean_step rooted out el =
     (if el = [] \<or> el = ''.'' then out
      else if el = ''..'' then
        (if out \<noteq> [] \<and> last out \<noteq> ''..'' then butlast out
         else if \<not> rooted then out @ [''..'']
         else out)
      else out @ [el])"

fun join_slash :: "string list \<Rightarrow> string" where
  "join_slash [] = []"
| "join_slash [p] = p"
| "join_slash (p # q # ps) = p @ ''/'' @ join_slash (q # ps)"

definition path_Clean :: "string \<Rightarrow> string" where
  "path_Clean p =
     (if p = [] then ''.''
      else
        (let rooted = (hd p = CHR ''/'');
             out = foldl (clean_step rooted) [] (Split p (CHR ''/''));
             s = (if rooted then ''/'' else []) @ join_slash out
         in if s = [] then ''.'' else s))"

definition path_Join :: "string \<Rightarrow> string \<Rightarrow> string" where
  "path_Join a b =
     (if a = [] \<and> b = [] then []
      else path_Clean (if a = [] then b else a @ ''/'' @ b))"

section \<open>Messages and metadata\<close>

text \<open>
  The rule message carries string metadata. \<open>GetValue\<close> of an absent key is the empty
  string; \<open>PutValue\<close> stores into the metadata the message shares with its caller, so
  the model returns the updated message.
\<close>

type_synonym Metadata = "string \<rightharpoonup> string"

record RuleMsg =
  Metadata :: Metadata
  DataType :: string
  Data :: string

definition GetValue :: "RuleMsg \<Rightarrow> string \<Rightarrow> string" where
  "GetValue msg key = (case Metadata msg key of None \<Rightarrow> [] | Some v \<Rightarrow> v)"

definition PutValue :: "RuleMsg \<Rightarrow> string \<Rightarrow> string \<Rightarrow> RuleMsg" where
  "PutValue msg key v = msg\<lparr>Metadata := (Metadata msg)(key \<mapsto> v)\<rparr>"

definition KeyWorkDir :: string where "KeyWorkDir = ''workDir''"
definition KeyRef :: string where "KeyRef = ''ref''"
definition KeyGitSshUrl :: string where "KeyGitSshUrl = ''gitSshUrl''"
definition KeyGitHttpUrl :: string where "KeyGitHttpUrl = ''gitHttpUrl''"

text \<open>
  Modelled from the spec: the constant \<open>KeyHash\<close> is used by the commit and create-tag
  nodes and declared outside the files at hand; the interface table names the key
  \<open>hash\<close>.
\<close>

definition KeyHash :: string where "KeyHash = ''hash''"

text \<open>
  The execution environment is built from the message by the rule engine's
  \<open>GetEvnAndMetadata\<close>; it is kept as the message it was built from. A nil
  environment is \<^term>\<open>None\<close>.

  The environment holds the metadata map of the message itself, not a copy of it: a
  value that \<open>PutValue\<close> stores into the message's metadata after the environment
  was built is seen by every template rendered later. \<open>evn_PutValue\<close> is that
  store, seen from the environment.
\<close>

datatype Evn = GetEvnAndMetadata RuleMsg

definition evn_PutValue :: "Evn option \<Rightarrow> string \<Rightarrow> string \<Rightarrow> Evn option" where
  "evn_PutValue evn key v =
     (case evn of
        None \<Rightarrow> None
      | Some e \<Rightarrow> (case e of GetEvnAndMetadata m \<Rightarrow> Some (GetEvnAndMetadata (PutValue m key v))))"

section \<open>Collaborators\<close>

text \<open>
  Errors are values. \<open>NoErrAlreadyUpToDate\<close> is go-git's sentinel, compared by identity
  in the clone node; \<open>ErrorsNew\<close> is an error made by \<open>errors.New\<close> in this package;
  \<open>LibError\<close> is any other error a library call reports.
\<close>

datatype error = NoErrAlreadyUpToDate | ErrorsNew string | LibError string

text \<open>
  A \<open>time.Time\<close> is an instant, counted from Go's zero time (January 1 of year 1,
  00:00:00 UTC): \<open>IsZero\<close> is being that instant, \<open>Before\<close> and \<open>After\<close> compare
  instants.
\<close>

type_synonym Time = int

definition IsZero :: "Time \<Rightarrow> bool" where "IsZero t \<longleftrightarrow> t = 0"
definition Before :: "Time \<Rightarrow> Time \<Rightarrow> bool" where "Before t u \<longleftrightarrow> t < u"
definition After :: "Time \<Rightarrow> Time \<Rightarrow> bool" where "After t u \<longleftrightarrow> t > u"

type_synonym Hash = string

datatype Reference = NewHashReference (Reference_Name: string) (Reference_Hash: Hash)
datatype Repository = Repository_at string
datatype Worktree = Worktree_at string
datatype PublicKeys = PublicKeys string string string
datatype AuthMethod = BasicAuth string string | SshKeys PublicKeys
datatype Template = NewTemplate string

record ProxyOptions =
  URL :: string
  Username :: string
  Password :: string

record object_Signature =
  Name :: string
  Email :: string
  When :: Time

record Commit =
  Hash :: Hash
  Author :: object_Signature
  Committer :: object_Signature
  MergeTag :: string
  Message :: string
  TreeHash :: Hash
  Encoding :: string

record Committer =
  Name :: string
  Email :: string
  When :: Time

record LogMsg =
  Hash :: string
  Author :: Committer
  Committer :: Committer
  MergeTag :: string
  Message :: string
  TreeHash :: string
  Encoding :: string

record CloneOptions =
  URL :: string
  ProxyOptions :: ProxyOptions
  ReferenceName :: string
  Auth :: AuthMethod

record PullOptions =
  RemoteURL :: string
  Force :: bool
  ProxyOptions :: ProxyOptions
  ReferenceName :: string
  Auth :: AuthMethod

record PushOptions =
  RemoteURL :: string
  RefSpecs :: "string list"
  Auth :: AuthMethod

record CommitOptions =
  Author :: object_Signature

record CreateTagOptions =
  Tagger :: object_Signature
  Message :: string

text \<open>
  The libraries the nodes call are parameters of the model. \<open>Lib\<close> holds the rule
  engine's string utilities, the clock, the file-system test and the key loader:
  \<^item> \<open>CheckHasVar\<close> and \<open>ExecuteTemplate\<close> are the functions of that name of the
    engine's \<open>str\<close> package, \<open>Template_Execute\<close> is the method \<open>Execute\<close> of a
    template made by \<open>str.NewTemplate\<close>, \<open>ToString\<close> is \<open>str.ToString\<close> on the
    list of log entries;
  \<^item> \<open>time_Parse\<close> is \<open>time.Parse\<close> with the layout \<open>2006-01-02 15:04:05\<close>;
  \<^item> \<open>Stat_IsNotExist\<close> is \<open>os.IsNotExist\<close> of the error of \<open>os.Stat\<close>;
  \<^item> \<open>NewPublicKeysFromFile\<close> is the ssh key loader (user, key file, password);
  \<^item> \<open>TrimSpace\<close> is \<open>strings.TrimSpace\<close>.
\<close>

record Lib =
  CheckHasVar :: "string \<Rightarrow> bool"
  ExecuteTemplate :: "string \<Rightarrow> Evn \<Rightarrow> string"
  Template_Execute :: "Template \<Rightarrow> Evn option \<Rightarrow> string"
  ToString :: "LogMsg list \<Rightarrow> string"
  time_Parse :: "string \<Rightarrow> error + Time"
  time_Now :: Time
  Stat_IsNotExist :: "string \<Rightarrow> bool"
  NewPublicKeysFromFile :: "string \<Rightarrow> string \<Rightarrow> string \<Rightarrow> error + PublicKeys"
  TrimSpace :: "string \<Rightarrow> string"

text \<open>
  \<open>Git\<close> holds the calls into go-git, each a function of its arguments: an
  error-only result is \<open>Some err\<close> or \<open>None\<close>, a result with a value is \<open>Inl err\<close> or
  \<open>Inr v\<close>. \<open>Log\<close> gives the commits the log iterator yields, in its order, up to its
  first error (the end of the history is such an error). \<open>nil_Reference_Hash\<close> is what
  the method \<open>Hash\<close> does on a nil reference: \<open>None\<close> when it reads through the nil
  pointer and the process panics, \<open>Some h\<close> when it returns \<open>h\<close>.
\<close>

record Git =
  PlainClone :: "string \<Rightarrow> CloneOptions \<Rightarrow> error option"
  PlainOpen :: "string \<Rightarrow> error + Repository"
  Worktree_of :: "Repository \<Rightarrow> error + Worktree"
  Pull :: "Worktree \<Rightarrow> PullOptions \<Rightarrow> error option"
  Status_IsClean :: "Worktree \<Rightarrow> error + bool"
  AddGlob :: "Worktree \<Rightarrow> string \<Rightarrow> error option"
  Commit_of :: "Worktree \<Rightarrow> string \<Rightarrow> CommitOptions \<Rightarrow> error + Hash"
  Head :: "Repository \<Rightarrow> error + Reference"
  nil_Reference_Hash :: "Hash option"
  CommitObject :: "Repository \<Rightarrow> Hash \<Rightarrow> error + Commit"
  CreateTag :: "Repository \<Rightarrow> string \<Rightarrow> Hash \<Rightarrow> CreateTagOptions \<Rightarrow> error + Reference"
  Push :: "Repository \<Rightarrow> PushOptions \<Rightarrow> error option"
  Log :: "Repository \<Rightarrow> error + Commit list"

text \<open>
  What a node tells the rule context, and how a call of \<open>OnMsg\<close> ends: it returns
  after the signals listed, or it panics after them.
\<close>

datatype signal = TellSuccess RuleMsg | TellFailure RuleMsg error

datatype run = Returned "signal list" | Panicked "signal list"

section \<open>Configuration\<close>

text \<open>
  The configuration handed to \<open>Init\<close> is a map from keys to values; \<open>maps.Map2Struct\<close>
  copies each key that is present into the field of that name and leaves the other
  fields as they are. The map is kept typed here, one optional value per key
  (\<open>key_directory\<close> is the key \<open>directory\<close>), so decoding cannot fail and the
  error \<open>Init\<close> returns is left out. The type
  \<open>Signature\<close> of the commit and tag configurations is declared outside the files at
  hand; its two fields are the ones the nodes read.
\<close>

record Signature =
  AuthorName :: string
  AuthorEmail :: string

record Configuration =
  key_repository :: "string option"
  key_directory :: "string option"
  key_reference :: "string option"
  key_authType :: "string option"
  key_authUser :: "string option"
  key_authPassword :: "string option"
  key_authPemFile :: "string option"
  key_proxyUrl :: "string option"
  key_proxyUsername :: "string option"
  key_proxyPassword :: "string option"
  key_refSpecs :: "string option"
  key_pattern :: "string option"
  key_message :: "string option"
  key_signature :: "Signature option"
  key_tag :: "string option"
  key_limit :: "int option"
  key_startTime :: "string option"
  key_endTime :: "string option"
  key_options :: "string list option"

definition field :: "'a option \<Rightarrow> 'a \<Rightarrow> 'a" where
  "field v old = (case v of None \<Rightarrow> old | Some w \<Rightarrow> w)"

record baseGitNodeConfiguration =
  Repository :: string
  Directory :: string
  Reference :: string
  AuthType :: string
  AuthUser :: string
  AuthPassword :: string
  AuthPemFile :: string
  ProxyUrl :: string
  ProxyUsername :: string
  ProxyPassword :: string
  RefSpecs :: string

record baseGitNode =
  Config :: baseGitNodeConfiguration

definition baseGitNodeConfiguration_zero :: baseGitNodeConfiguration where
  "baseGitNodeConfiguration_zero =
     \<lparr>Repository = [], Directory = [], Reference = [], AuthType = [], AuthUser = [],
      AuthPassword = [], AuthPemFile = [], ProxyUrl = [], ProxyUsername = [],
      ProxyPassword = [], RefSpecs = []\<rparr>"

definition Map2Struct_base ::
  "Configuration \<Rightarrow> baseGitNodeConfiguration \<Rightarrow> baseGitNodeConfiguration" where
  "Map2Struct_base c old =
     \<lparr>Repository = field (key_repository c) (Repository old),
      Directory = field (key_directory c) (Directory old),
      Reference = field (key_reference c) (Reference old),
      AuthType = field (key_authType c) (AuthType old),
      AuthUser = field (key_authUser c) (AuthUser old),
      AuthPassword = field (key_authPassword c) (AuthPassword old),
      AuthPemFile = field (key_authPemFile c) (AuthPemFile old),
      ProxyUrl = field (key_proxyUrl c) (ProxyUrl old),
      ProxyUsername = field (key_proxyUsername c) (ProxyUsername old),
      ProxyPassword = field (key_proxyPassword c) (ProxyPassword old),
      RefSpecs = field (key_refSpecs c) (RefSpecs old)\<rparr>"

section \<open>The shared git node\<close>

definition getAuthMethod :: "Lib \<Rightarrow> baseGitNode \<Rightarrow> error + AuthMethod" where
  "getAuthMethod L x =
     (let t = AuthType (Config x) in
      if t = ''ssh-key'' \<or> t = ''ssh'' then
        (case NewPublicKeysFromFile L (AuthUser (Config x)) (AuthPemFile (Config x))
                (AuthPassword (Config x)) of
           Inl err \<Rightarrow> Inl err
         | Inr sshKey \<Rightarrow> Inr (SshKeys sshKey))
      else if t = ''username-password'' \<or> t = ''password'' then
        Inr (BasicAuth (AuthUser (Config x)) (AuthPassword (Config x)))
      else if t = ''token'' then
        Inr (BasicAuth (AuthUser (Config x)) (AuthPassword (Config x)))
      else Inl (ErrorsNew (''not authType='' @ t)))"

text \<open>
  \<open>getRepoName\<close> indexes the last part of the split URL; \<^term>\<open>None\<close> is the index
  out of range, on which Go panics.
\<close>

definition getRepoName :: "string \<Rightarrow> string option" where
  "getRepoName repoURL =
     (let parts = Split repoURL (CHR ''/'') in
      if length parts = 0 then None
      else Some (TrimSuffix (parts ! (length parts - 1)) ''.git''))"

definition getRepository :: "Lib \<Rightarrow> baseGitNode \<Rightarrow> RuleMsg \<Rightarrow> Evn option \<Rightarrow> string" where
  "getRepository L x msg evn =
     (let repository = Repository (Config x) in
      if repository = [] then
        (if AuthType (Config x) = ''ssh-key'' \<or> AuthType (Config x) = ''ssh''
         then GetValue msg KeyGitSshUrl
         else GetValue msg KeyGitHttpUrl)
      else (case evn of
              Some e \<Rightarrow> ExecuteTemplate L repository e
            | None \<Rightarrow> repository))"

definition getWorkDir :: "Lib \<Rightarrow> baseGitNode \<Rightarrow> RuleMsg \<Rightarrow> Evn option \<Rightarrow> string option" where
  "getWorkDir L x msg evn =
     (let workDir = Directory (Config x);
          workDir = (if workDir = [] then GetValue msg KeyWorkDir
                     else (case evn of
                             Some e \<Rightarrow> ExecuteTemplate L workDir e
                           | None \<Rightarrow> workDir))
      in case getRepoName (getRepository L x msg evn) of
           None \<Rightarrow> None
         | Some repoName \<Rightarrow> Some (path_Join workDir repoName))"

definition getRefSpecs :: "Lib \<Rightarrow> baseGitNode \<Rightarrow> RuleMsg \<Rightarrow> Evn option \<Rightarrow> string list" where
  "getRefSpecs L x msg evn =
     (let ref = RefSpecs (Config x);
          ref = (case evn of Some e \<Rightarrow> ExecuteTemplate L ref e | None \<Rightarrow> ref)
      in Split ref (CHR '',''))"

definition getReferenceName :: "Lib \<Rightarrow> baseGitNode \<Rightarrow> RuleMsg \<Rightarrow> Evn option \<Rightarrow> string" where
  "getReferenceName L x msg evn =
     (let ref = Reference (Config x) in
      if ref = [] then GetValue msg KeyRef
      else (case evn of
              Some e \<Rightarrow> ExecuteTemplate L ref e
            | None \<Rightarrow> ref))"

definition ProxyOptions_zero :: ProxyOptions where
  "ProxyOptions_zero = \<lparr>ProxyOptions.URL = [], Username = [], Password = []\<rparr>"

definition getProxy :: "baseGitNode \<Rightarrow> ProxyOptions" where
  "getProxy x =
     (if ProxyUrl (Config x) \<noteq> [] then
        \<lparr>ProxyOptions.URL = ProxyUrl (Config x),
         Username = ProxyUsername (Config x),
         Password = ProxyPassword (Config x)\<rparr>
      else ProxyOptions_zero)"

text \<open>
  Every \<open>OnMsg\<close> starts the same way: the environment is built only when the node's
  flag is set.
\<close>

definition build_evn :: "bool \<Rightarrow> RuleMsg \<Rightarrow> Evn option" where
  "build_evn hasVar msg = (if hasVar then Some (GetEvnAndMetadata msg) else None)"

section \<open>The clone node\<close>

record GitCloneNodeConfiguration =
  Repository :: string
  Directory :: string
  Reference :: string
  AuthType :: string
  AuthUser :: string
  AuthPassword :: string
  AuthPemFile :: string
  ProxyUrl :: string
  ProxyUsername :: string
  ProxyPassword :: string

record GitCloneNode =
  base :: baseGitNode
  Config :: GitCloneNodeConfiguration
  hasVar :: bool

definition GitCloneNode_New :: GitCloneNode where
  "GitCloneNode_New =
     \<lparr>GitCloneNode.base = \<lparr>baseGitNode.Config = baseGitNodeConfiguration_zero\<rparr>,
      Config = \<lparr>GitCloneNodeConfiguration.Repository = [], Directory = [],
                Reference = ''refs/heads/main'', AuthType = [], AuthUser = [],
                AuthPassword = [], AuthPemFile = [], ProxyUrl = [], ProxyUsername = [],
                ProxyPassword = []\<rparr>,
      hasVar = False\<rparr>"

definition Map2Struct_clone ::
  "Configuration \<Rightarrow> GitCloneNodeConfiguration \<Rightarrow> GitCloneNodeConfiguration" where
  "Map2Struct_clone c old =
     \<lparr>GitCloneNodeConfiguration.Repository =
        field (key_repository c) (GitCloneNodeConfiguration.Repository old),
      Directory = field (key_directory c) (GitCloneNodeConfiguration.Directory old),
      Reference = field (key_reference c) (GitCloneNodeConfiguration.Reference old),
      AuthType = field (key_authType c) (GitCloneNodeConfiguration.AuthType old),
      AuthUser = field (key_authUser c) (GitCloneNodeConfiguration.AuthUser old),
      AuthPassword = field (key_authPassword c) (GitCloneNodeConfiguration.AuthPassword old),
      AuthPemFile = field (key_authPemFile c) (GitCloneNodeConfiguration.AuthPemFile old),
      ProxyUrl = field (key_proxyUrl c) (GitCloneNodeConfiguration.ProxyUrl old),
      ProxyUsername = field (key_proxyUsername c) (GitCloneNodeConfiguration.ProxyUsername old),
      ProxyPassword = field (key_proxyPassword c) (GitCloneNodeConfiguration.ProxyPassword old)\<rparr>"

definition GitCloneNode_Init :: "Lib \<Rightarrow> GitCloneNode \<Rightarrow> Configuration \<Rightarrow> GitCloneNode" where
  "GitCloneNode_Init L x c =
     (let cfg = Map2Struct_clone c (GitCloneNode.Config x);
          b = Map2Struct_base c (baseGitNode.Config (GitCloneNode.base x))
      in \<lparr>GitCloneNode.base = \<lparr>baseGitNode.Config = b\<rparr>,
          Config = cfg,
          hasVar =
            (if CheckHasVar L (GitCloneNodeConfiguration.Repository cfg)
                \<or> CheckHasVar L (GitCloneNodeConfiguration.Directory cfg)
                \<or> CheckHasVar L (GitCloneNodeConfiguration.Reference cfg)
             then True else GitCloneNode.hasVar x)\<rparr>)"

definition clone_proxy :: "baseGitNode \<Rightarrow> ProxyOptions" where
  "clone_proxy x =
     (let proxy = getProxy x in
      if ProxyOptions.URL proxy \<noteq> [] then proxy else ProxyOptions_zero)"

definition clone_ref :: "string \<Rightarrow> string" where
  "clone_ref ref = (if ref \<noteq> [] then ref else [])"

definition GitCloneNode_OnMsg :: "Lib \<Rightarrow> Git \<Rightarrow> GitCloneNode \<Rightarrow> RuleMsg \<Rightarrow> run" where
  "GitCloneNode_OnMsg L G x msg =
     (let evn = build_evn (GitCloneNode.hasVar x) msg;
          ref = getReferenceName L (GitCloneNode.base x) msg evn
      in case getWorkDir L (GitCloneNode.base x) msg evn of
           None \<Rightarrow> Panicked []
         | Some workDir \<Rightarrow>
            (let msg' = PutValue msg KeyWorkDir workDir;
                 evn' = evn_PutValue evn KeyWorkDir workDir;
                 repository = getRepository L (GitCloneNode.base x) msg' evn'
             in if Stat_IsNotExist L workDir then
                  (case getAuthMethod L (GitCloneNode.base x) of
                     Inl err \<Rightarrow> Returned [TellFailure msg' err]
                   | Inr auth \<Rightarrow>
                      (case PlainClone G workDir
                              \<lparr>CloneOptions.URL = repository,
                               ProxyOptions = clone_proxy (GitCloneNode.base x),
                               ReferenceName = clone_ref ref,
                               Auth = auth\<rparr> of
                         Some err \<Rightarrow> Returned [TellFailure msg' err]
                       | None \<Rightarrow> Returned [TellSuccess msg']))
                else
                  (case PlainOpen G workDir of
                     Inl err \<Rightarrow> Returned [TellFailure msg' err]
                   | Inr r \<Rightarrow>
                      (case Worktree_of G r of
                         Inl err \<Rightarrow> Returned [TellFailure msg' err]
                       | Inr w \<Rightarrow>
                          (case getAuthMethod L (GitCloneNode.base x) of
                             Inl err \<Rightarrow> Returned [TellFailure msg' err]
                           | Inr auth \<Rightarrow>
                              (case Pull G w
                                      \<lparr>PullOptions.RemoteURL = repository,
                                       Force = True,
                                       ProxyOptions = clone_proxy (GitCloneNode.base x),
                                       ReferenceName = clone_ref ref,
                                       Auth = auth\<rparr> of
                                 Some err \<Rightarrow>
                                   (if err = NoErrAlreadyUpToDate
                                    then Returned [TellSuccess msg']
                                    else Returned [TellFailure msg' err])
                               | None \<Rightarrow> Returned [TellSuccess msg']))))))"

section \<open>The commit node\<close>

record GitCommitNodeConfiguration =
  Directory :: string
  Pattern :: string
  Message :: string
  Signature :: Signature

record GitCommitNode =
  base :: baseGitNode
  Config :: GitCommitNodeConfiguration
  hasVar :: bool

definition Signature_zero :: Signature where
  "Signature_zero = \<lparr>AuthorName = [], AuthorEmail = []\<rparr>"

definition GitCommitNode_New :: GitCommitNode where
  "GitCommitNode_New =
     \<lparr>GitCommitNode.base = \<lparr>baseGitNode.Config = baseGitNodeConfiguration_zero\<rparr>,
      Config = \<lparr>GitCommitNodeConfiguration.Directory = [], Pattern = [], Message = [],
                Signature = Signature_zero\<rparr>,
      hasVar = False\<rparr>"

definition Map2Struct_commit ::
  "Configuration \<Rightarrow> GitCommitNodeConfiguration \<Rightarrow> GitCommitNodeConfiguration" where
  "Map2Struct_commit c old =
     \<lparr>GitCommitNodeConfiguration.Directory =
        field (key_directory c) (GitCommitNodeConfiguration.Directory old),
      Pattern = field (key_pattern c) (GitCommitNodeConfiguration.Pattern old),
      Message = field (key_message c) (GitCommitNodeConfiguration.Message old),
      Signature = field (key_signature c) (GitCommitNodeConfiguration.Signature old)\<rparr>"

definition GitCommitNode_Init :: "Lib \<Rightarrow> GitCommitNode \<Rightarrow> Configuration \<Rightarrow> GitCommitNode" where
  "GitCommitNode_Init L x c =
     (let cfg = Map2Struct_commit c (GitCommitNode.Config x);
          b = Map2Struct_base c (baseGitNode.Config (GitCommitNode.base x))
      in \<lparr>GitCommitNode.base = \<lparr>baseGitNode.Config = b\<rparr>,
          Config = cfg,
          hasVar =
            (if CheckHasVar L (GitCommitNodeConfiguration.Directory cfg)
                \<or> CheckHasVar L (GitCommitNodeConfiguration.Pattern cfg)
                \<or> CheckHasVar L (AuthorName (GitCommitNodeConfiguration.Signature cfg))
                \<or> CheckHasVar L (AuthorEmail (GitCommitNodeConfiguration.Signature cfg))
             then True else GitCommitNode.hasVar x)\<rparr>)"

text \<open>
  The getters of the commit and tag nodes all have one shape: the configured string,
  rendered when the environment is not nil.
\<close>

definition rendered :: "Lib \<Rightarrow> string \<Rightarrow> Evn option \<Rightarrow> string" where
  "rendered L s evn = (case evn of Some e \<Rightarrow> ExecuteTemplate L s e | None \<Rightarrow> s)"

definition GitCommitNode_getPattern :: "Lib \<Rightarrow> GitCommitNode \<Rightarrow> Evn option \<Rightarrow> string" where
  "GitCommitNode_getPattern L x evn =
     rendered L (GitCommitNodeConfiguration.Pattern (GitCommitNode.Config x)) evn"

definition GitCommitNode_getMessage :: "Lib \<Rightarrow> GitCommitNode \<Rightarrow> Evn option \<Rightarrow> string" where
  "GitCommitNode_getMessage L x evn =
     rendered L (GitCommitNodeConfiguration.Message (GitCommitNode.Config x)) evn"

definition GitCommitNode_getSignatureName :: "Lib \<Rightarrow> GitCommitNode \<Rightarrow> Evn option \<Rightarrow> string" where
  "GitCommitNode_getSignatureName L x evn =
     rendered L (AuthorName (GitCommitNodeConfiguration.Signature (GitCommitNode.Config x))) evn"

definition GitCommitNode_getSignatureEmail :: "Lib \<Rightarrow> GitCommitNode \<Rightarrow> Evn option \<Rightarrow> string" where
  "GitCommitNode_getSignatureEmail L x evn =
     rendered L (AuthorEmail (GitCommitNodeConfiguration.Signature (GitCommitNode.Config x))) evn"

definition GitCommitNode_OnMsg :: "Lib \<Rightarrow> Git \<Rightarrow> GitCommitNode \<Rightarrow> RuleMsg \<Rightarrow> run" where
  "GitCommitNode_OnMsg L G x msg =
     (let evn = build_evn (GitCommitNode.hasVar x) msg
      in case getWorkDir L (GitCommitNode.base x) msg evn of
           None \<Rightarrow> Panicked []
         | Some workDir \<Rightarrow>
            (let msg' = PutValue msg KeyWorkDir workDir;
                 evn' = evn_PutValue evn KeyWorkDir workDir
             in case PlainOpen G workDir of
                  Inl err \<Rightarrow> Returned [TellFailure msg' err]
                | Inr r \<Rightarrow>
                   (case Worktree_of G r of
                      Inl err \<Rightarrow> Returned [TellFailure msg' err]
                    | Inr w \<Rightarrow>
                       (case Status_IsClean G w of
                          Inl err \<Rightarrow> Returned [TellFailure msg' err]
                        | Inr clean \<Rightarrow>
                           (if clean then
                              Returned [TellFailure msg' (ErrorsNew ''no changes to commit'')]
                            else
                              (case AddGlob G w (GitCommitNode_getPattern L x evn') of
                                 Some err \<Rightarrow> Returned [TellFailure msg' err]
                               | None \<Rightarrow>
                                  (case Commit_of G w (GitCommitNode_getMessage L x evn')
                                          \<lparr>CommitOptions.Author =
                                             \<lparr>object_Signature.Name =
                                                GitCommitNode_getSignatureName L x evn',
                                              Email = GitCommitNode_getSignatureEmail L x evn',
                                              When = time_Now L\<rparr>\<rparr> of
                                     Inl err \<Rightarrow> Returned [TellFailure msg' err]
                                   | Inr commit \<Rightarrow>
                                       Returned [TellSuccess (PutValue msg' KeyHash commit)])))))))"

section \<open>The create-tag node\<close>

record GitCreateTagNodeConfiguration =
  Directory :: string
  Tag :: string
  Message :: string
  Signature :: Signature

record GitCreateTagNode =
  base :: baseGitNode
  Config :: GitCreateTagNodeConfiguration
  hasVar :: bool

definition GitCreateTagNode_New :: GitCreateTagNode where
  "GitCreateTagNode_New =
     \<lparr>GitCreateTagNode.base = \<lparr>baseGitNode.Config = baseGitNodeConfiguration_zero\<rparr>,
      Config = \<lparr>GitCreateTagNodeConfiguration.Directory = [], Tag = [], Message = [],
                Signature = Signature_zero\<rparr>,
      hasVar = False\<rparr>"

definition Map2Struct_tag ::
  "Configuration \<Rightarrow> GitCreateTagNodeConfiguration \<Rightarrow> GitCreateTagNodeConfiguration" where
  "Map2Struct_tag c old =
     \<lparr>GitCreateTagNodeConfiguration.Directory =
        field (key_directory c) (GitCreateTagNodeConfiguration.Directory old),
      Tag = field (key_tag c) (GitCreateTagNodeConfiguration.Tag old),
      Message = field (key_message c) (GitCreateTagNodeConfiguration.Message old),
      Signature = field (key_signature c) (GitCreateTagNodeConfiguration.Signature old)\<rparr>"

definition GitCreateTagNode_Init ::
  "Lib \<Rightarrow> GitCreateTagNode \<Rightarrow> Configuration \<Rightarrow> GitCreateTagNode" where
  "GitCreateTagNode_Init L x c =
     (let cfg = Map2Struct_tag c (GitCreateTagNode.Config x);
          b = Map2Struct_base c (baseGitNode.Config (GitCreateTagNode.base x))
      in \<lparr>GitCreateTagNode.base = \<lparr>baseGitNode.Config = b\<rparr>,
          Config = cfg,
          hasVar =
            (if CheckHasVar L (GitCreateTagNodeConfiguration.Directory cfg)
                \<or> CheckHasVar L (GitCreateTagNodeConfiguration.Tag cfg)
                \<or> CheckHasVar L (AuthorName (GitCreateTagNodeConfiguration.Signature cfg))
                \<or> CheckHasVar L (AuthorEmail (GitCreateTagNodeConfiguration.Signature cfg))
             then True else GitCreateTagNode.hasVar x)\<rparr>)"

definition GitCreateTagNode_getTag :: "Lib \<Rightarrow> GitCreateTagNode \<Rightarrow> Evn option \<Rightarrow> string" where
  "GitCreateTagNode_getTag L x evn =
     rendered L (GitCreateTagNodeConfiguration.Tag (GitCreateTagNode.Config x)) evn"

definition GitCreateTagNode_getMessage :: "Lib \<Rightarrow> GitCreateTagNode \<Rightarrow> Evn option \<Rightarrow> string" where
  "GitCreateTagNode_getMessage L x evn =
     rendered L (GitCreateTagNodeConfiguration.Message (GitCreateTagNode.Config x)) evn"

definition GitCreateTagNode_getSignatureName ::
  "Lib \<Rightarrow> GitCreateTagNode \<Rightarrow> Evn option \<Rightarrow> string" where
  "GitCreateTagNode_getSignatureName L x evn =
     rendered L
       (AuthorName (GitCreateTagNodeConfiguration.Signature (GitCreateTagNode.Config x))) evn"

definition GitCreateTagNode_getSignatureEmail ::
  "Lib \<Rightarrow> GitCreateTagNode \<Rightarrow> Evn option \<Rightarrow> string" where
  "GitCreateTagNode_getSignatureEmail L x evn =
     rendered L
       (AuthorEmail (GitCreateTagNodeConfiguration.Signature (GitCreateTagNode.Config x))) evn"

text \<open>
  The error of \<open>r.Head()\<close> is tested and the branch is empty, so the call goes on with
  the reference \<open>Head\<close> returned, which is nil when it failed; \<open>head_Hash\<close> is
  \<open>commit.Hash()\<close> on that reference, \<^term>\<open>None\<close> when the call panics.
\<close>

definition head_Hash :: "Git \<Rightarrow> error + Reference \<Rightarrow> Hash option" where
  "head_Hash G res =
     (case res of
        Inl err \<Rightarrow> nil_Reference_Hash G
      | Inr commit \<Rightarrow> Some (Reference_Hash commit))"

definition GitCreateTagNode_OnMsg :: "Lib \<Rightarrow> Git \<Rightarrow> GitCreateTagNode \<Rightarrow> RuleMsg \<Rightarrow> run" where
  "GitCreateTagNode_OnMsg L G x msg =
     (let evn = build_evn (GitCreateTagNode.hasVar x) msg
      in case getWorkDir L (GitCreateTagNode.base x) msg evn of
           None \<Rightarrow> Panicked []
         | Some workDir \<Rightarrow>
            (let msg' = PutValue msg KeyWorkDir workDir;
                 evn' = evn_PutValue evn KeyWorkDir workDir
             in case PlainOpen G workDir of
                  Inl err \<Rightarrow> Returned [TellFailure msg' err]
                | Inr r \<Rightarrow>
                   (case head_Hash G (Head G r) of
                      None \<Rightarrow> Panicked []
                    | Some h \<Rightarrow>
                       (case CommitObject G r h of
                          Inl err \<Rightarrow> Returned [TellFailure msg' err]
                        | Inr commitObj \<Rightarrow>
                           (case CreateTag G r (GitCreateTagNode_getTag L x evn')
                                   (Commit.Hash commitObj)
                                   \<lparr>Tagger =
                                      \<lparr>object_Signature.Name =
                                         GitCreateTagNode_getSignatureName L x evn',
                                       Email = GitCreateTagNode_getSignatureEmail L x evn',
                                       When = time_Now L\<rparr>,
                                    Message = GitCreateTagNode_getMessage L x evn'\<rparr> of
                              Inl err \<Rightarrow> Returned [TellFailure msg' err]
                            | Inr annotatedTag \<Rightarrow>
                                Returned [TellSuccess
                                  (PutValue msg' KeyHash (Reference_Hash annotatedTag))])))))"

section \<open>The push node\<close>

record GitPushNodeConfiguration =
  Repository :: string
  Directory :: string
  RefSpecs :: string
  AuthType :: string
  AuthUser :: string
  AuthPassword :: string
  AuthPemFile :: string
  ProxyUrl :: string
  ProxyUsername :: string
  ProxyPassword :: string

record GitPushNode =
  base :: baseGitNode
  Config :: GitPushNodeConfiguration
  hasVar :: bool

definition GitPushNode_New :: GitPushNode where
  "GitPushNode_New =
     \<lparr>GitPushNode.base = \<lparr>baseGitNode.Config = baseGitNodeConfiguration_zero\<rparr>,
      Config = \<lparr>GitPushNodeConfiguration.Repository = [], Directory = [], RefSpecs = [],
                AuthType = [], AuthUser = [], AuthPassword = [], AuthPemFile = [],
                ProxyUrl = [], ProxyUsername = [], ProxyPassword = []\<rparr>,
      hasVar = False\<rparr>"

definition Map2Struct_push ::
  "Configuration \<Rightarrow> GitPushNodeConfiguration \<Rightarrow> GitPushNodeConfiguration" where
  "Map2Struct_push c old =
     \<lparr>GitPushNodeConfiguration.Repository =
        field (key_repository c) (GitPushNodeConfiguration.Repository old),
      Directory = field (key_directory c) (GitPushNodeConfiguration.Directory old),
      RefSpecs = field (key_refSpecs c) (GitPushNodeConfiguration.RefSpecs old),
      AuthType = field (key_authType c) (GitPushNodeConfiguration.AuthType old),
      AuthUser = field (key_authUser c) (GitPushNodeConfiguration.AuthUser old),
      AuthPassword = field (key_authPassword c) (GitPushNodeConfiguration.AuthPassword old),
      AuthPemFile = field (key_authPemFile c) (GitPushNodeConfiguration.AuthPemFile old),
      ProxyUrl = field (key_proxyUrl c) (GitPushNodeConfiguration.ProxyUrl old),
      ProxyUsername = field (key_proxyUsername c) (GitPushNodeConfiguration.ProxyUsername old),
      ProxyPassword = field (key_proxyPassword c) (GitPushNodeConfiguration.ProxyPassword old)\<rparr>"

definition GitPushNode_Init :: "Lib \<Rightarrow> GitPushNode \<Rightarrow> Configuration \<Rightarrow> GitPushNode" where
  "GitPushNode_Init L x c =
     (let cfg = Map2Struct_push c (GitPushNode.Config x);
          b = Map2Struct_base c (baseGitNode.Config (GitPushNode.base x))
      in \<lparr>GitPushNode.base = \<lparr>baseGitNode.Config = b\<rparr>,
          Config = cfg,
          hasVar =
            (if CheckHasVar L (GitPushNodeConfiguration.Repository cfg)
                \<or> CheckHasVar L (GitPushNodeConfiguration.Directory cfg)
                \<or> CheckHasVar L (GitPushNodeConfiguration.RefSpecs cfg)
             then True else GitPushNode.hasVar x)\<rparr>)"

definition GitPushNode_OnMsg :: "Lib \<Rightarrow> Git \<Rightarrow> GitPushNode \<Rightarrow> RuleMsg \<Rightarrow> run" where
  "GitPushNode_OnMsg L G x msg =
     (let evn = build_evn (GitPushNode.hasVar x) msg;
          refSpecs = getRefSpecs L (GitPushNode.base x) msg evn
      in case getWorkDir L (GitPushNode.base x) msg evn of
           None \<Rightarrow> Panicked []
         | Some workDir \<Rightarrow>
            (let msg' = PutValue msg KeyWorkDir workDir;
                 evn' = evn_PutValue evn KeyWorkDir workDir;
                 repository = getRepository L (GitPushNode.base x) msg' evn'
             in case PlainOpen G workDir of
                  Inl err \<Rightarrow> Returned [TellFailure msg' err]
                | Inr r \<Rightarrow>
                   (case getAuthMethod L (GitPushNode.base x) of
                      Inl err \<Rightarrow> Returned [TellFailure msg' err]
                    | Inr auth \<Rightarrow>
                       (case Push G r
                               \<lparr>PushOptions.RemoteURL = repository,
                                RefSpecs = refSpecs,
                                Auth = auth\<rparr> of
                          Some err \<Rightarrow> Returned [TellFailure msg' err]
                        | None \<Rightarrow> Returned [TellSuccess msg']))))"

section \<open>The log node\<close>

record GitLogNodeConfiguration =
  Directory :: string
  Limit :: int
  StartTime :: string
  EndTime :: string

text \<open>
  The two templates are interface values, nil (\<^term>\<open>None\<close>) until \<open>Init\<close> sets them.
\<close>

record GitLogNode =
  base :: baseGitNode
  Config :: GitLogNodeConfiguration
  hasVar :: bool
  startTimeTemplate :: "Template option"
  endTimeTemplate :: "Template option"

definition GitLogNode_New :: GitLogNode where
  "GitLogNode_New =
     \<lparr>GitLogNode.base = \<lparr>baseGitNode.Config = baseGitNodeConfiguration_zero\<rparr>,
      Config = \<lparr>GitLogNodeConfiguration.Directory = [], Limit = 10, StartTime = [],
                EndTime = []\<rparr>,
      hasVar = False,
      startTimeTemplate = None,
      endTimeTemplate = None\<rparr>"

definition Map2Struct_log ::
  "Configuration \<Rightarrow> GitLogNodeConfiguration \<Rightarrow> GitLogNodeConfiguration" where
  "Map2Struct_log c old =
     \<lparr>GitLogNodeConfiguration.Directory =
        field (key_directory c) (GitLogNodeConfiguration.Directory old),
      Limit = field (key_limit c) (Limit old),
      StartTime = field (key_startTime c) (StartTime old),
      EndTime = field (key_endTime c) (EndTime old)\<rparr>"

definition GitLogNode_Init :: "Lib \<Rightarrow> GitLogNode \<Rightarrow> Configuration \<Rightarrow> GitLogNode" where
  "GitLogNode_Init L x c =
     (let cfg = Map2Struct_log c (GitLogNode.Config x);
          b = Map2Struct_base c (baseGitNode.Config (GitLogNode.base x));
          cfg = cfg\<lparr>StartTime := TrimSpace L (StartTime cfg)\<rparr>;
          cfg = cfg\<lparr>EndTime := TrimSpace L (EndTime cfg)\<rparr>
      in \<lparr>GitLogNode.base = \<lparr>baseGitNode.Config = b\<rparr>,
          Config = cfg,
          hasVar =
            (if CheckHasVar L (StartTime cfg) \<or> CheckHasVar L (EndTime cfg)
             then True else GitLogNode.hasVar x),
          startTimeTemplate = Some (NewTemplate (StartTime cfg)),
          endTimeTemplate = Some (NewTemplate (EndTime cfg))\<rparr>)"

definition toLogMsg :: "Commit \<Rightarrow> LogMsg" where
  "toLogMsg commit =
     \<lparr>LogMsg.Hash = Commit.Hash commit,
      Author = \<lparr>Committer.Name = object_Signature.Name (Commit.Author commit),
                Email = object_Signature.Email (Commit.Author commit),
                When = object_Signature.When (Commit.Author commit)\<rparr>,
      Committer = \<lparr>Committer.Name = object_Signature.Name (Commit.Committer commit),
                   Email = object_Signature.Email (Commit.Committer commit),
                   When = object_Signature.When (Commit.Committer commit)\<rparr>,
      MergeTag = Commit.MergeTag commit,
      Message = Commit.Message commit,
      TreeHash = Commit.TreeHash commit,
      Encoding = Commit.Encoding commit\<rparr>"

text \<open>
  The loop over the log iterator, on the commits it yields. \<open>i\<close> counts the entries
  kept so far; it is a Go \<open>int\<close>, kept unbounded here, since it counts commits of
  one history.
\<close>

definition out_of_range :: "Time \<Rightarrow> Time \<Rightarrow> Commit \<Rightarrow> bool" where
  "out_of_range startTime endTime commit \<longleftrightarrow>
     (\<not> IsZero startTime
        \<and> Before (object_Signature.When (Commit.Committer commit)) startTime)
     \<or> (\<not> IsZero endTime
        \<and> After (object_Signature.When (Commit.Committer commit)) endTime)"

fun log_loop :: "Time \<Rightarrow> Time \<Rightarrow> int \<Rightarrow> int \<Rightarrow> Commit list \<Rightarrow> LogMsg list" where
  "log_loop startTime endTime limit i [] = []"
| "log_loop startTime endTime limit i (commit # rest) =
     (if out_of_range startTime endTime commit
      then log_loop startTime endTime limit i rest
      else toLogMsg commit #
           (if limit \<noteq> 0 \<and> i + 1 \<ge> limit then []
            else log_loop startTime endTime limit (i + 1) rest))"

definition bare_date :: "string \<Rightarrow> string \<Rightarrow> string" where
  "bare_date s clock = (if s \<noteq> [] \<and> length s = 10 then s @ clock else s)"

text \<open>
  \<open>time.Parse\<close> returns the zero time together with its error, and the error is
  dropped.
\<close>

definition parse_time :: "Lib \<Rightarrow> string \<Rightarrow> Time" where
  "parse_time L s = (case time_Parse L s of Inl err \<Rightarrow> 0 | Inr t \<Rightarrow> t)"

definition GitLogNode_OnMsg :: "Lib \<Rightarrow> Git \<Rightarrow> GitLogNode \<Rightarrow> RuleMsg \<Rightarrow> run" where
  "GitLogNode_OnMsg L G x msg =
     (let evn = build_evn (GitLogNode.hasVar x) msg
      in case getWorkDir L (GitLogNode.base x) msg evn of
           None \<Rightarrow> Panicked []
         | Some workDir \<Rightarrow>
            (let msg' = PutValue msg KeyWorkDir workDir;
                 evn' = evn_PutValue evn KeyWorkDir workDir
             in case startTimeTemplate x of
                  None \<Rightarrow> Panicked []
                | Some st \<Rightarrow>
                   (case endTimeTemplate x of
                      None \<Rightarrow> Panicked []
                    | Some et \<Rightarrow>
                       (let startTimeStr = bare_date (Template_Execute L st evn') '' 00:00:00'';
                            endTimeStr = bare_date (Template_Execute L et evn') '' 23:59:59''
                        in case PlainOpen G workDir of
                             Inl err \<Rightarrow> Returned [TellFailure msg' err]
                           | Inr r \<Rightarrow>
                              (let startTime = parse_time L startTimeStr;
                                   endTime = parse_time L endTimeStr
                               in case Log G r of
                                    Inl err \<Rightarrow> Returned [TellFailure msg' err]
                                  | Inr commits \<Rightarrow>
                                     (let messages =
                                        log_loop startTime endTime
                                          (Limit (GitLogNode.Config x)) 0 commits
                                      in Returned [TellSuccess
                                           (msg'\<lparr>DataType := ''JSON'',
                                                 Data := ToString L messages\<rparr>)]))))))"

section \<open>The host metrics node\<close>

definition OptionsHostInfo :: string where "OptionsHostInfo = ''host/info''"
definition OptionsCpuInfo :: string where "OptionsCpuInfo = ''cpu/info''"
definition OptionsCpuPercent :: string where "OptionsCpuPercent = ''cpu/percent''"
definition OptionsVirtualMemory :: string where "OptionsVirtualMemory = ''mem/virtualMemory''"
definition OptionsSwapMemory :: string where "OptionsSwapMemory = ''mem/swapMemory''"
definition OptionsDiskUsage :: string where "OptionsDiskUsage = ''disk/usage''"
definition OptionsDiskIOCounters :: string where "OptionsDiskIOCounters = ''disk/ioCounters''"
definition OptionsNetIOCounters :: string where "OptionsNetIOCounters = ''net/ioCounters''"
definition OptionsInterfaces :: string where "OptionsInterfaces = ''net/interfaces''"

text \<open>
  What a collector returns is opaque: a \<open>Stat\<close>. A collector returns a value and an
  error; the value is a pointer (\<^term>\<open>None\<close> when nil) or a slice or map
  (\<^term>\<open>None\<close> when nil). A partition is its mount point, the only field read. The
  I/O counters are a map from device to counters, kept as the list of its entries in
  the order the loop visits them.
\<close>

datatype Stat = Stat string

datatype PsValue = Ptr "Stat option" | Slice "Stat list option"

record Host =
  host_Info :: "Stat option \<times> error option"
  cpu_Info :: "Stat list option \<times> error option"
  cpu_Percent :: "Stat list option \<times> error option"
  mem_VirtualMemory :: "Stat option \<times> error option"
  mem_SwapMemory :: "Stat option \<times> error option"
  disk_Partitions :: "string list option \<times> error option"
  disk_Usage :: "string \<Rightarrow> Stat option \<times> error option"
  disk_IOCounters :: "(string \<times> Stat) list option \<times> error option"
  net_IOCounters :: "Stat list option \<times> error option"
  net_Interfaces :: "Stat list option \<times> error option"
  json_Marshal :: "(string \<rightharpoonup> PsValue) \<Rightarrow> string \<times> error option"

record PsNodeConfiguration =
  Options :: "string list"

record PsNode =
  Config :: PsNodeConfiguration
  All :: bool
  Metrics :: "string \<rightharpoonup> bool"



definition contains :: "PsNode \<Rightarrow> string \<Rightarrow> bool" where
  "contains x target = (if All x then True else Metrics x target \<noteq> None)"

text \<open>
  An appended slice is nil as long as nothing was appended.
\<close>

definition appended :: "Stat list \<Rightarrow> Stat list option" where
  "appended xs = (if xs = [] then None else Some xs)"

definition diskUsages :: "Host \<Rightarrow> Stat list option" where
  "diskUsages H =
     (case fst (disk_Partitions H) of
        None \<Rightarrow> None
      | Some diskInfo \<Rightarrow>
          appended (concat (map (\<lambda>part. case fst (disk_Usage H part) of
                                           None \<Rightarrow> []
                                         | Some diskUsage \<Rightarrow> [diskUsage]) diskInfo)))"

definition diskIOItems :: "Host \<Rightarrow> Stat list option" where
  "diskIOItems H =
     (case fst (disk_IOCounters H) of
        None \<Rightarrow> None
      | Some diskIOCounters \<Rightarrow> appended (map snd diskIOCounters))"

text \<open>
  The map \<open>result\<close> that \<open>OnMsg\<close> fills, one guarded assignment after the other.
\<close>

definition PsNode_result :: "Host \<Rightarrow> PsNode \<Rightarrow> (string \<rightharpoonup> PsValue)" where
  "PsNode_result H x =
     (let result = Map.empty;
          result = (if All x \<or> contains x OptionsHostInfo
                    then result(OptionsHostInfo \<mapsto> Ptr (fst (host_Info H))) else result);
          result = (if All x \<or> contains x OptionsCpuInfo
                    then result(OptionsCpuInfo \<mapsto> Slice (fst (cpu_Info H))) else result);
          result = (if All x \<or> contains x OptionsCpuPercent
                    then result(OptionsCpuPercent \<mapsto> Slice (fst (cpu_Percent H))) else result);
          result = (if contains x OptionsVirtualMemory
                    then result(OptionsVirtualMemory \<mapsto> Ptr (fst (mem_VirtualMemory H)))
                    else result);
          result = (if contains x OptionsSwapMemory
                    then result(OptionsSwapMemory \<mapsto> Ptr (fst (mem_SwapMemory H)))
                    else result);
          result = (if contains x OptionsDiskUsage
                    then result(OptionsDiskUsage \<mapsto> Slice (diskUsages H)) else result);
          result = (if contains x OptionsDiskIOCounters
                    then result(OptionsDiskIOCounters \<mapsto> Slice (diskIOItems H)) else result);
          result = (if contains x OptionsNetIOCounters
                    then result(OptionsNetIOCounters \<mapsto> Slice (fst (net_IOCounters H)))
                    else result);
          result = (if contains x OptionsInterfaces
                    then result(OptionsInterfaces \<mapsto> Slice (fst (net_Interfaces H)))
                    else result)
      in result)"

definition PsNode_OnMsg :: "Host \<Rightarrow> PsNode \<Rightarrow> RuleMsg \<Rightarrow> run" where
  "PsNode_OnMsg H x msg =
     (let result = PsNode_result H x;
          resultJSON = fst (json_Marshal H result)
      in Returned [TellSuccess (msg\<lparr>Data := resultJSON\<rparr>)])"

section \<open>Reading a run\<close>

fun signals :: "run \<Rightarrow> signal list" where
  "signals (Returned ss) = ss"
| "signals (Panicked ss) = ss"

fun signal_msg :: "signal \<Rightarrow> RuleMsg" where
  "signal_msg (TellSuccess m) = m"
| "signal_msg (TellFailure m err) = m"

section \<open>The specification's wording\<close>

text \<open>
  The short name of a repository, as the specification words it: the basename of the
  URL (what follows its last slash) without a trailing \<open>.git\<close>.
\<close>

definition basename :: "string \<Rightarrow> string" where
  "basename U = rev (takeWhile (\<lambda>c. c \<noteq> CHR ''/'') (rev U))"

definition short_name :: "string \<Rightarrow> string" where
  "short_name U =
     (let b = basename U in
      if suffix ''.git'' b then take (length b - length ''.git'') b else b)"

text \<open>
  The base directory of a node: the metadata fallback when the configured directory is
  empty, otherwise the configured directory, rendered when there is an environment.
\<close>

definition base_directory :: "Lib \<Rightarrow> baseGitNode \<Rightarrow> RuleMsg \<Rightarrow> Evn option \<Rightarrow> string" where
  "base_directory L x msg evn =
     (if baseGitNodeConfiguration.Directory (baseGitNode.Config x) = []
      then GetValue msg KeyWorkDir
      else rendered L (baseGitNodeConfiguration.Directory (baseGitNode.Config x)) evn)"

text \<open>
  The directory derived for a node whose flag is \<open>hv\<close>: the base directory joined
  with the short name of the repository URL.
\<close>

definition derived_directory :: "Lib \<Rightarrow> baseGitNode \<Rightarrow> bool \<Rightarrow> RuleMsg \<Rightarrow> string" where
  "derived_directory L x hv msg =
     path_Join (base_directory L x msg (build_evn hv msg))
       (short_name (getRepository L x msg (build_evn hv msg)))"

text \<open>
  A committer time lies inside the bounds that are set; a zero bound is not set.
\<close>

definition committer_time :: "Commit \<Rightarrow> Time" where
  "committer_time c = object_Signature.When (Commit.Committer c)"

definition inside_bounds :: "Time \<Rightarrow> Time \<Rightarrow> Commit \<Rightarrow> bool" where
  "inside_bounds startTime endTime c \<longleftrightarrow>
     (startTime = 0 \<or> startTime \<le> committer_time c)
     \<and> (endTime = 0 \<or> committer_time c \<le> endTime)"

text \<open>
  What a limit keeps of the matching commits, in their order: all of them when the
  limit is zero, otherwise the first \<open>limit\<close> of them, and one when the limit is
  negative.
\<close>

definition first_entries :: "int \<Rightarrow> 'a list \<Rightarrow> 'a list" where
  "first_entries limit xs = (if limit = 0 then xs else take (nat (max 1 limit)) xs)"

definition entry_time :: "LogMsg \<Rightarrow> Time" where
  "entry_time m = Committer.When (LogMsg.Committer m)"

definition newest_first :: "Time list \<Rightarrow> bool" where
  "newest_first ts = sorted_wrt (\<lambda>a b. a \<ge> b) ts"


text \<open>
  A configured literal that contains markers.
\<close>

definition has_markers :: "Lib \<Rightarrow> string \<Rightarrow> bool" where
  "has_markers L s \<longleftrightarrow> s \<noteq> [] \<and> CheckHasVar L s"

text \<open>
  The renderer's contract: a string without markers renders to itself.
\<close>

definition renders_plain :: "Lib \<Rightarrow> bool" where
  "renders_plain L \<longleftrightarrow> (\<forall>s e. \<not> CheckHasVar L s \<longrightarrow> ExecuteTemplate L s e = s)"

section \<open>A concrete set of collaborators\<close>

text \<open>
  To run the model, the collaborators are instantiated: markers are \<open>${key}\<close>, the
  key \<open>metadata.k\<close> is bound to the metadata value of \<open>k\<close>, any other key renders
  to the marker as written, and an unclosed marker is left as it is. Times are
  written \<open>yyyy-MM-dd HH:mm:ss\<close> and read as the number \<open>yyyyMMddHHmmss\<close>.
\<close>

fun has_open :: "string \<Rightarrow> bool" where
  "has_open (c # d # cs) = ((c = CHR ''$'' \<and> d = CHR ''{'') \<or> has_open (d # cs))"
| "has_open cs = False"

definition lookup_key :: "Evn \<Rightarrow> string \<Rightarrow> string" where
  "lookup_key e k =
     (case e of GetEvnAndMetadata m \<Rightarrow>
        if take 9 k = ''metadata.'' then GetValue m (drop 9 k) else ''${'' @ k @ ''}'')"

fun render_scan :: "(string \<Rightarrow> string) \<Rightarrow> string option \<Rightarrow> string \<Rightarrow> string" where
  "render_scan f None [] = []"
| "render_scan f (Some k) [] = ''${'' @ k"
| "render_scan f None (c # cs) =
     (case cs of
        [] \<Rightarrow> [c]
      | d # ds \<Rightarrow> if c = CHR ''$'' \<and> d = CHR ''{'' then render_scan f (Some []) ds
                  else c # render_scan f None cs)"
| "render_scan f (Some k) (c # cs) =
     (if c = CHR ''}'' then f k @ render_scan f None cs
      else render_scan f (Some (k @ [c])) cs)"

definition digits_value :: "string \<Rightarrow> int option" where
  "digits_value s =
     (if s \<noteq> [] \<and> list_all (\<lambda>c. (48::nat) \<le> of_char c \<and> (of_char c::nat) \<le> 57) s
      then Some (foldl (\<lambda>n c. 10 * n + (int (of_char c) - 48)) 0 s)
      else None)"

definition read_time :: "string \<Rightarrow> error + Time" where
  "read_time s =
     (if length s = 19 \<and> s ! 4 = CHR ''-'' \<and> s ! 7 = CHR ''-'' \<and> s ! 10 = CHR '' ''
         \<and> s ! 13 = CHR '':'' \<and> s ! 16 = CHR '':''
      then (case digits_value (filter (\<lambda>c. c \<notin> {CHR ''-'', CHR '' '', CHR '':''}) s) of
              Some n \<Rightarrow> Inr n
            | None \<Rightarrow> Inl (LibError ''parsing time''))
      else Inl (LibError ''parsing time''))"

definition stdLib :: Lib where
  "stdLib =
     \<lparr>CheckHasVar = (\<lambda>s. has_open s \<and> CHR ''}'' \<in> set s),
      ExecuteTemplate = (\<lambda>s e. render_scan (lookup_key e) None s),
      Template_Execute =
        (\<lambda>t evn. case t of NewTemplate s \<Rightarrow>
           (case evn of None \<Rightarrow> s | Some e \<Rightarrow> render_scan (lookup_key e) None s)),
      ToString = (\<lambda>ms. concat (map (\<lambda>m. LogMsg.Hash m @ '';'') ms)),
      time_Parse = read_time,
      time_Now = 20240601120000,
      Stat_IsNotExist = (\<lambda>dir. False),
      NewPublicKeysFromFile =
        (\<lambda>user pemFile password.
           if pemFile = [] then Inl (LibError ''open : no such file or directory'')
           else Inr (PublicKeys user pemFile password)),
      TrimSpace = (\<lambda>s. rev (dropWhile (\<lambda>c. c = CHR '' '') (rev (dropWhile (\<lambda>c. c = CHR '' '') s))))\<rparr>"

definition commitAt :: "string \<Rightarrow> Time \<Rightarrow> Commit" where
  "commitAt h t =
     \<lparr>Commit.Hash = h,
      Author = \<lparr>object_Signature.Name = ''a'', Email = ''a@x'', When = t\<rparr>,
      Committer = \<lparr>object_Signature.Name = ''c'', Email = ''c@x'', When = t\<rparr>,
      MergeTag = [], Message = ''m'', TreeHash = ''t'', Encoding = ''UTF-8''\<rparr>"

definition threeCommits :: "Commit list" where
  "threeCommits = [commitAt ''h3'' 20240103000000, commitAt ''h2'' 20240102000000,
                   commitAt ''h1'' 20240101000000]"

text \<open>
  A repository that opens anywhere, is up to date with its remote, has a clean working
  tree, three commits and no resolvable \<open>HEAD\<close>; \<open>Hash\<close> on a nil reference reads
  the field of its receiver and panics.
\<close>

definition stdGit :: Git where
  "stdGit =
     \<lparr>PlainClone = (\<lambda>dir opts. None),
      PlainOpen = (\<lambda>dir. Inr (Repository_at dir)),
      Worktree_of = (\<lambda>r. case r of Repository_at dir \<Rightarrow> Inr (Worktree_at dir)),
      Pull = (\<lambda>w opts. Some NoErrAlreadyUpToDate),
      Status_IsClean = (\<lambda>w. Inr True),
      AddGlob = (\<lambda>w pat. None),
      Commit_of = (\<lambda>w m opts. Inr ''c0ffee''),
      Head = (\<lambda>r. Inl (LibError ''reference not found'')),
      nil_Reference_Hash = None,
      CommitObject = (\<lambda>r h. Inl (LibError ''object not found'')),
      CreateTag = (\<lambda>r name h opts. Inr (NewHashReference (''refs/tags/'' @ name) h)),
      Push = (\<lambda>r opts. None),
      Log = (\<lambda>r. Inr threeCommits)\<rparr>"



definition emptyConfiguration :: Configuration where
  "emptyConfiguration =
     \<lparr>key_repository = None, key_directory = None, key_reference = None,
      key_authType = None, key_authUser = None, key_authPassword = None,
      key_authPemFile = None, key_proxyUrl = None, key_proxyUsername = None,
      key_proxyPassword = None, key_refSpecs = None, key_pattern = None,
      key_message = None, key_signature = None, key_tag = None, key_limit = None,
      key_startTime = None, key_endTime = None, key_options = None\<rparr>"

definition emptyMsg :: RuleMsg where
  "emptyMsg = \<lparr>Metadata = Map.empty, DataType = ''JSON'', Data = []\<rparr>"

text \<open>
  The message of the end-to-end scenario: metadata \<open>workDir = /base\<close>, \<open>ref = dev\<close>,
  \<open>gitHttpUrl = https://example/repo.git\<close>.
\<close>

definition scenarioMsg :: RuleMsg where
  "scenarioMsg =
     PutValue (PutValue (PutValue emptyMsg KeyWorkDir ''/base'') KeyRef ''dev'')
       KeyGitHttpUrl ''https://example/repo.git''"

text \<open>
  Nodes made by \<open>New\<close> and \<open>Init\<close>: a clone node and a push node with auth type
  \<open>token\<close>, a commit node, a tag node and a log node with the empty configuration.
\<close>

definition cloneNode :: GitCloneNode where
  "cloneNode = GitCloneNode_Init stdLib GitCloneNode_New
                 (emptyConfiguration\<lparr>key_authType := Some ''token''\<rparr>)"

definition pushNode :: GitPushNode where
  "pushNode = GitPushNode_Init stdLib GitPushNode_New
                (emptyConfiguration\<lparr>key_authType := Some ''token''\<rparr>)"

definition commitNode :: GitCommitNode where
  "commitNode = GitCommitNode_Init stdLib GitCommitNode_New emptyConfiguration"

definition tagNode :: GitCreateTagNode where
  "tagNode = GitCreateTagNode_Init stdLib GitCreateTagNode_New emptyConfiguration"

definition logNode :: GitLogNode where
  "logNode = GitLogNode_Init stdLib GitLogNode_New emptyConfiguration"

text \<open>
  The same repository with a remote that refuses the pull, and with a \<open>HEAD\<close> that
  resolves to a commit that is not in the object store.
\<close>

definition refusingGit :: Git where
  "refusingGit = stdGit\<lparr>Pull := (\<lambda>w opts. Some (LibError ''authentication required''))\<rparr>"

definition headGit :: Git where
  "headGit = stdGit\<lparr>Head := (\<lambda>r. Inr (NewHashReference ''HEAD'' ''abc''))\<rparr>"

text \<open>
  Log nodes: one whose start time does not parse and whose end time is a bare date,
  one whose start time has ten characters and does not parse, one whose directory
  holds a marker, and one whose directory and start time both hold a marker. The
  message \<open>markerMsg\<close> binds \<open>base\<close> to \<open>/srv\<close>.
\<close>

definition looseLogNode :: GitLogNode where
  "looseLogNode = GitLogNode_Init stdLib GitLogNode_New
     (emptyConfiguration\<lparr>key_startTime := Some ''yesterday'',
                          key_endTime := Some ''2024-01-02''\<rparr>)"

definition slashLogNode :: GitLogNode where
  "slashLogNode = GitLogNode_Init stdLib GitLogNode_New
     (emptyConfiguration\<lparr>key_startTime := Some ''2024/01/02''\<rparr>)"

definition markerDirLogNode :: GitLogNode where
  "markerDirLogNode = GitLogNode_Init stdLib GitLogNode_New
     (emptyConfiguration\<lparr>key_directory := Some ''${metadata.base}''\<rparr>)"

definition markerBothLogNode :: GitLogNode where
  "markerBothLogNode = GitLogNode_Init stdLib GitLogNode_New
     (emptyConfiguration\<lparr>key_directory := Some ''${metadata.base}'',
                          key_startTime := Some ''${metadata.since}''\<rparr>)"

definition markerMsg :: RuleMsg where
  "markerMsg = PutValue scenarioMsg ''base'' ''/srv''"

text \<open>
  A repository as \<open>stdGit\<close>, against a library whose \<open>Hash\<close> answers for a nil
  reference.
\<close>

definition nilSafeGit :: Git where
  "nilSafeGit = stdGit\<lparr>nil_Reference_Hash := Some ''0000''\<rparr>"



text \<open>
  Shared nodes whose three fields are literals without markers, and templates.
\<close>

definition literalNode :: baseGitNode where
  "literalNode =
     \<lparr>baseGitNode.Config =
        baseGitNodeConfiguration_zero
          \<lparr>baseGitNodeConfiguration.Repository := ''https://example/app.git'',
           baseGitNodeConfiguration.Directory := ''/work'',
           baseGitNodeConfiguration.Reference := ''refs/heads/main''\<rparr>\<rparr>"

definition markerNode :: baseGitNode where
  "markerNode =
     \<lparr>baseGitNode.Config =
        baseGitNodeConfiguration_zero
          \<lparr>baseGitNodeConfiguration.Repository := ''${metadata.gitHttpUrl}'',
           baseGitNodeConfiguration.Directory := ''${metadata.base}'',
           baseGitNodeConfiguration.Reference := ''${metadata.ref}''\<rparr>\<rparr>"

text \<open>
  A configuration whose repository, directory and reference are templates, and the
  clone, push, commit and tag nodes initialised with it.
\<close>

definition markerConf :: Configuration where
  "markerConf =
     emptyConfiguration\<lparr>key_repository := Some ''${metadata.gitHttpUrl}'',
                         key_directory := Some ''${metadata.base}'',
                         key_reference := Some ''${metadata.ref}''\<rparr>"

definition markerCloneNode :: GitCloneNode where
  "markerCloneNode = GitCloneNode_Init stdLib GitCloneNode_New markerConf"

definition markerPushNode :: GitPushNode where
  "markerPushNode = GitPushNode_Init stdLib GitPushNode_New markerConf"

definition markerCommitNode :: GitCommitNode where
  "markerCommitNode = GitCommitNode_Init stdLib GitCommitNode_New markerConf"

definition markerTagNode :: GitCreateTagNode where
  "markerTagNode = GitCreateTagNode_Init stdLib GitCreateTagNode_New markerConf"

text \<open>
  A clone node whose repository URL is a template over the metadata key \<open>workDir\<close>,
  a message that binds \<open>workDir\<close> to \<open>w\<close>, and a remote that knows the
  repository \<open>rem/w/w.git\<close> only.
\<close>

definition liveCloneNode :: GitCloneNode where
  "liveCloneNode = GitCloneNode_Init stdLib GitCloneNode_New
     (emptyConfiguration\<lparr>key_repository := Some ''rem/${metadata.workDir}.git'',
                          key_authType := Some ''token''\<rparr>)"

definition liveMsg :: RuleMsg where
  "liveMsg = PutValue emptyMsg KeyWorkDir ''w''"

definition urlGit :: Git where
  "urlGit =
     stdGit\<lparr>Pull := (\<lambda>w opts. if PullOptions.RemoteURL opts = ''rem/w/w.git''
                             then Some NoErrAlreadyUpToDate
                             else Some (LibError ''repository not found''))\<rparr>"

text \<open>
  A shared node with the given auth type and key file, user \<open>git\<close> and secret
  \<open>secret\<close>.
\<close>

definition authNode :: "string \<Rightarrow> string \<Rightarrow> baseGitNode" where
  "authNode t pemFile =
     \<lparr>baseGitNode.Config =
        baseGitNodeConfiguration_zero
          \<lparr>baseGitNodeConfiguration.AuthType := t,
           baseGitNodeConfiguration.AuthUser := ''git'',
           baseGitNodeConfiguration.AuthPassword := ''secret'',
           baseGitNodeConfiguration.AuthPemFile := pemFile\<rparr>\<rparr>"

section \<open>Facts about strings and paths\<close>

lemma Split_not_Nil: "Split s c \<noteq> []"
  by (induction s) (auto split: list.splits)

lemma Split_no_sep: "c \<notin> set s \<Longrightarrow> Split s c = [s]"
  by (induction s) auto

lemma Split_append_sep: "Split (a @ c # b) c = Split a c @ Split b c"
proof (induction a)
  case Nil
  show ?case by simp
next
  case (Cons x a)
  obtain p ps where ps: "Split a c = p # ps"
    using Split_not_Nil [of a c] by (cases "Split a c") auto
  show ?case using Cons ps by simp
qed

lemma after_last_sep:
  assumes "c \<notin> set b"
  shows "rev (takeWhile (\<lambda>d. d \<noteq> c) (rev b @ c # rev a)) = b"
proof -
  have "takeWhile (\<lambda>d. d \<noteq> c) (rev b @ c # rev a) = takeWhile (\<lambda>d. d \<noteq> c) (rev b)"
    by (rule takeWhile_tail) simp
  also have "\<dots> = rev b"
    using assms by (auto simp: takeWhile_eq_all_conv)
  finally show ?thesis by simp
qed

lemma last_Split: "last (Split s c) = rev (takeWhile (\<lambda>d. d \<noteq> c) (rev s))"
proof (cases "c \<in> set s")
  case False
  then have tw: "takeWhile (\<lambda>d. d \<noteq> c) (rev s) = rev s"
    by (auto simp: takeWhile_eq_all_conv)
  show ?thesis by (subst tw) (simp add: Split_no_sep False)
next
  case True
  then obtain a b where s: "s = a @ c # b" and b: "c \<notin> set b"
    using split_list_last [of c s] by blast
  have "last (Split s c) = b"
    unfolding s by (simp add: Split_append_sep Split_no_sep b)
  moreover have "rev (takeWhile (\<lambda>d. d \<noteq> c) (rev s)) = b"
    unfolding s using after_last_sep [OF b, of a] by simp
  ultimately show ?thesis by simp
qed

lemma HasSuffix_iff: "HasSuffix s t \<longleftrightarrow> suffix t s"
proof
  assume "HasSuffix s t"
  then have "s = take (length s - length t) s @ t"
    unfolding HasSuffix_def by (metis append_take_drop_id)
  then show "suffix t s" unfolding suffix_def by blast
next
  assume "suffix t s"
  then obtain zs where "s = zs @ t" unfolding suffix_def by blast
  then show "HasSuffix s t" unfolding HasSuffix_def by simp
qed

lemma getRepoName_short_name: "getRepoName U = Some (short_name U)"
proof -
  have "last (Split U (CHR ''/'')) = basename U"
    by (simp add: last_Split basename_def)
  then have "Split U (CHR ''/'') ! (length (Split U (CHR ''/'')) - 1) = basename U"
    using Split_not_Nil [of U "CHR ''/''"] by (simp add: last_conv_nth)
  then show ?thesis
    using Split_not_Nil [of U "CHR ''/''"]
    by (simp add: getRepoName_def short_name_def TrimSuffix_def HasSuffix_iff Let_def)
qed

lemma getWorkDir_eq:
  "getWorkDir L x msg evn =
     Some (path_Join (base_directory L x msg evn) (short_name (getRepository L x msg evn)))"
  by (simp add: getWorkDir_def getRepoName_short_name base_directory_def rendered_def Let_def
           split: option.splits)

lemma Metadata_PutValue: "Metadata (PutValue m k v) = (Metadata m)(k \<mapsto> v)"
  by (simp add: PutValue_def)

lemma evn_PutValue_simps:
  "evn_PutValue None k v = None"
  "evn_PutValue (Some (GetEvnAndMetadata m)) k v = Some (GetEvnAndMetadata (PutValue m k v))"
  by (simp_all add: evn_PutValue_def)

lemma evn_PutValue_build_evn:
  "evn_PutValue (build_evn hv msg) k v = build_evn hv (PutValue msg k v)"
  by (simp add: build_evn_def evn_PutValue_simps)

lemma GetValue_PutValue:
  "GetValue (PutValue m k v) k' = (if k' = k then v else GetValue m k')"
  by (simp add: GetValue_def PutValue_def)

section \<open>The auth method selector\<close>

text \<open>
  C6. The selector maps the tags \<open>token\<close>, \<open>username-password\<close> and \<open>password\<close> to a
  basic credential holding the user and the secret; the tags \<open>ssh-key\<close> and \<open>ssh\<close>
  to the ssh key the loader returns for the user, key file and secret, or to the
  loader's error; every other tag to the error \<open>not authType=\<close> followed by the tag,
  and to no credential.
\<close>

theorem getAuthMethod_selector:
  "(baseGitNodeConfiguration.AuthType (baseGitNode.Config x)
        \<in> {''token'', ''username-password'', ''password''} \<longrightarrow>
      getAuthMethod L x =
        Inr (BasicAuth (baseGitNodeConfiguration.AuthUser (baseGitNode.Config x))
                       (baseGitNodeConfiguration.AuthPassword (baseGitNode.Config x))))
   \<and> (baseGitNodeConfiguration.AuthType (baseGitNode.Config x) \<in> {''ssh-key'', ''ssh''} \<longrightarrow>
      getAuthMethod L x =
        (case NewPublicKeysFromFile L
                (baseGitNodeConfiguration.AuthUser (baseGitNode.Config x))
                (baseGitNodeConfiguration.AuthPemFile (baseGitNode.Config x))
                (baseGitNodeConfiguration.AuthPassword (baseGitNode.Config x)) of
           Inl err \<Rightarrow> Inl err
         | Inr sshKey \<Rightarrow> Inr (SshKeys sshKey)))
   \<and> (baseGitNodeConfiguration.AuthType (baseGitNode.Config x)
        \<notin> {''token'', ''username-password'', ''password'', ''ssh-key'', ''ssh''} \<longrightarrow>
      getAuthMethod L x =
        Inl (ErrorsNew (''not authType='' @
               baseGitNodeConfiguration.AuthType (baseGitNode.Config x))))"
  by (simp add: getAuthMethod_def Let_def)

theorem getAuthMethod_selector_witness:
  "baseGitNodeConfiguration.AuthType (baseGitNode.Config (authNode ''token'' []))
       \<in> {''token'', ''username-password'', ''password''}
   \<and> getAuthMethod stdLib (authNode ''token'' []) = Inr (BasicAuth ''git'' ''secret'')
   \<and> baseGitNodeConfiguration.AuthType (baseGitNode.Config (authNode ''ssh'' ''id_rsa''))
       \<in> {''ssh-key'', ''ssh''}
   \<and> getAuthMethod stdLib (authNode ''ssh'' ''id_rsa'')
       = Inr (SshKeys (PublicKeys ''git'' ''id_rsa'' ''secret''))
   \<and> getAuthMethod stdLib (authNode ''ssh-key'' [])
       = Inl (LibError ''open : no such file or directory'')
   \<and> baseGitNodeConfiguration.AuthType (baseGitNode.Config (authNode ''oauth'' []))
       \<notin> {''token'', ''username-password'', ''password'', ''ssh-key'', ''ssh''}
   \<and> getAuthMethod stdLib (authNode ''oauth'' []) = Inl (ErrorsNew ''not authType=oauth'')"
  using getAuthMethod_selector [of "authNode ''token'' []" stdLib]
        getAuthMethod_selector [of "authNode ''ssh'' ''id_rsa''" stdLib]
        getAuthMethod_selector [of "authNode ''ssh-key'' []" stdLib]
        getAuthMethod_selector [of "authNode ''oauth'' []" stdLib]
  by (simp add: authNode_def baseGitNodeConfiguration_zero_def stdLib_def)

section \<open>The work directory\<close>

lemma GetValue_more [simp]:
  "GetValue (m\<lparr>DataType := d\<rparr>) k = GetValue m k"
  "GetValue (m\<lparr>Data := t\<rparr>) k = GetValue m k"
  by (simp_all add: GetValue_def)

lemma clone_workDir:
  "\<forall>s \<in> set (signals (GitCloneNode_OnMsg L G x msg)).
     GetValue (signal_msg s) KeyWorkDir
       = derived_directory L (GitCloneNode.base x) (GitCloneNode.hasVar x) msg"
  by (simp add: GitCloneNode_OnMsg_def getWorkDir_eq derived_directory_def Let_def
        GetValue_PutValue split: sum.splits option.splits)

lemma commit_workDir:
  "\<forall>s \<in> set (signals (GitCommitNode_OnMsg L G x msg)).
     GetValue (signal_msg s) KeyWorkDir
       = derived_directory L (GitCommitNode.base x) (GitCommitNode.hasVar x) msg"
  by (simp add: GitCommitNode_OnMsg_def getWorkDir_eq derived_directory_def Let_def
        GetValue_PutValue KeyHash_def KeyWorkDir_def split: sum.splits option.splits)

lemma tag_workDir:
  "\<forall>s \<in> set (signals (GitCreateTagNode_OnMsg L G x msg)).
     GetValue (signal_msg s) KeyWorkDir
       = derived_directory L (GitCreateTagNode.base x) (GitCreateTagNode.hasVar x) msg"
  by (simp add: GitCreateTagNode_OnMsg_def getWorkDir_eq derived_directory_def Let_def
        GetValue_PutValue KeyHash_def KeyWorkDir_def split: sum.splits option.splits)

lemma push_workDir:
  "\<forall>s \<in> set (signals (GitPushNode_OnMsg L G x msg)).
     GetValue (signal_msg s) KeyWorkDir
       = derived_directory L (GitPushNode.base x) (GitPushNode.hasVar x) msg"
  by (simp add: GitPushNode_OnMsg_def getWorkDir_eq derived_directory_def Let_def
        GetValue_PutValue split: sum.splits option.splits)

lemma log_workDir:
  "\<forall>s \<in> set (signals (GitLogNode_OnMsg L G x msg)).
     GetValue (signal_msg s) KeyWorkDir
       = derived_directory L (GitLogNode.base x) (GitLogNode.hasVar x) msg"
  by (simp add: GitLogNode_OnMsg_def getWorkDir_eq derived_directory_def Let_def
        GetValue_PutValue split: sum.splits option.splits)

text \<open>
  C2. The work directory is a function of the base directory \<open>D\<close> and the repository
  URL \<open>U\<close>: \<open>path.Join\<close> of \<open>D\<close> and the part of \<open>U\<close> after its last slash, without a
  trailing \<open>.git\<close>. \<open>getWorkDir\<close> never panics, and the clone, commit, tag, push
  and log nodes all put this directory into the metadata of whatever they signal.
\<close>

theorem work_directory_derivation:
  "getWorkDir L b msg evn
     = Some (path_Join (base_directory L b msg evn) (short_name (getRepository L b msg evn)))
   \<and> (\<forall>s \<in> set (signals (GitCloneNode_OnMsg L G cl msg)).
        GetValue (signal_msg s) KeyWorkDir
          = derived_directory L (GitCloneNode.base cl) (GitCloneNode.hasVar cl) msg)
   \<and> (\<forall>s \<in> set (signals (GitCommitNode_OnMsg L G cm msg)).
        GetValue (signal_msg s) KeyWorkDir
          = derived_directory L (GitCommitNode.base cm) (GitCommitNode.hasVar cm) msg)
   \<and> (\<forall>s \<in> set (signals (GitCreateTagNode_OnMsg L G tg msg)).
        GetValue (signal_msg s) KeyWorkDir
          = derived_directory L (GitCreateTagNode.base tg) (GitCreateTagNode.hasVar tg) msg)
   \<and> (\<forall>s \<in> set (signals (GitPushNode_OnMsg L G pu msg)).
        GetValue (signal_msg s) KeyWorkDir
          = derived_directory L (GitPushNode.base pu) (GitPushNode.hasVar pu) msg)
   \<and> (\<forall>s \<in> set (signals (GitLogNode_OnMsg L G lg msg)).
        GetValue (signal_msg s) KeyWorkDir
          = derived_directory L (GitLogNode.base lg) (GitLogNode.hasVar lg) msg)"
  by (intro conjI getWorkDir_eq clone_workDir commit_workDir tag_workDir push_workDir
        log_workDir)

section \<open>Clone or pull\<close>

text \<open>
  C3. When the work directory exists, the repository and its working tree open and
  the auth method is selected, the clone node's outcome is the pull's: Success when
  the pull reports \<open>NoErrAlreadyUpToDate\<close> (or no error), Failure carrying the error
  for every other error. The pull is the one the node makes: its remote URL is the
  repository resolved after the work directory was stored in the metadata, against
  the environment that sees that store. This holds for every message and every state
  of the collaborators, so for each of any number of invocations against an unchanged
  remote.
\<close>

theorem clone_pull_outcome:
  assumes "evn = build_evn (GitCloneNode.hasVar x) msg"
    and "getWorkDir L (GitCloneNode.base x) msg evn = Some workDir"
    and "msg' = PutValue msg KeyWorkDir workDir"
    and "evn' = evn_PutValue evn KeyWorkDir workDir"
    and "\<not> Stat_IsNotExist L workDir"
    and "PlainOpen G workDir = Inr r"
    and "Worktree_of G r = Inr w"
    and "getAuthMethod L (GitCloneNode.base x) = Inr auth"
    and "opts = \<lparr>PullOptions.RemoteURL = getRepository L (GitCloneNode.base x) msg' evn',
                  Force = True,
                  ProxyOptions = clone_proxy (GitCloneNode.base x),
                  ReferenceName = clone_ref (getReferenceName L (GitCloneNode.base x) msg evn),
                  Auth = auth\<rparr>"
  shows "(Pull G w opts = Some NoErrAlreadyUpToDate \<longrightarrow>
            GitCloneNode_OnMsg L G x msg = Returned [TellSuccess msg'])
       \<and> (\<forall>err. Pull G w opts = Some err \<and> err \<noteq> NoErrAlreadyUpToDate \<longrightarrow>
            GitCloneNode_OnMsg L G x msg = Returned [TellFailure msg' err])
       \<and> (Pull G w opts = None \<longrightarrow>
            GitCloneNode_OnMsg L G x msg = Returned [TellSuccess msg'])"
  using assms by (simp add: GitCloneNode_OnMsg_def Let_def)

section \<open>Commit\<close>

text \<open>
  C4. When the repository and its working tree open and the status is clean, the
  commit node signals Failure with the error \<open>no changes to commit\<close>, once, and the
  metadata key \<open>hash\<close> of the message it signals holds what it held before.
\<close>

theorem commit_clean_tree:
  assumes "getWorkDir L (GitCommitNode.base x) msg (build_evn (GitCommitNode.hasVar x) msg)
             = Some workDir"
    and "PlainOpen G workDir = Inr r"
    and "Worktree_of G r = Inr w"
    and "Status_IsClean G w = Inr True"
  shows "GitCommitNode_OnMsg L G x msg
           = Returned [TellFailure (PutValue msg KeyWorkDir workDir)
                         (ErrorsNew ''no changes to commit'')]
       \<and> Metadata (PutValue msg KeyWorkDir workDir) KeyHash = Metadata msg KeyHash"
  using assms
  by (simp add: GitCommitNode_OnMsg_def Let_def Metadata_PutValue KeyHash_def KeyWorkDir_def)

section \<open>The log query\<close>

lemma out_of_range_iff: "out_of_range st en c \<longleftrightarrow> \<not> inside_bounds st en c"
  by (auto simp: out_of_range_def inside_bounds_def committer_time_def IsZero_def Before_def
        After_def)

lemma log_loop_eq:
  "log_loop st en limit i cs =
     map toLogMsg
       (if limit = 0 then filter (inside_bounds st en) cs
        else take (nat (max 1 (limit - i))) (filter (inside_bounds st en) cs))"
proof (induction cs arbitrary: i)
  case Nil
  show ?case by simp
next
  case (Cons c cs)
  show ?case
  proof (cases "inside_bounds st en c")
    case False
    then show ?thesis using Cons [of i] by (simp add: out_of_range_iff)
  next
    case True
    show ?thesis
    proof (cases "limit \<noteq> 0 \<and> i + 1 \<ge> limit")
      case stop: True
      then have "nat (max 1 (limit - i)) = 1" by auto
      then show ?thesis using True stop by (simp add: out_of_range_iff)
    next
      case go: False
      show ?thesis
      proof (cases "limit = 0")
        case True
        then show ?thesis using \<open>inside_bounds st en c\<close> Cons [of "i + 1"]
          by (simp add: out_of_range_iff)
      next
        case False
        with go have "nat (max 1 (limit - i)) = Suc (nat (max 1 (limit - (i + 1))))"
          by auto
        then show ?thesis using False go \<open>inside_bounds st en c\<close> Cons [of "i + 1"]
          by (simp add: out_of_range_iff)
      qed
    qed
  qed
qed

lemma log_loop_first_entries:
  "log_loop st en limit 0 cs
     = map toLogMsg (first_entries limit (filter (inside_bounds st en) cs))"
  by (simp add: log_loop_eq first_entries_def)

lemma entry_time_toLogMsg: "entry_time (toLogMsg c) = committer_time c"
  by (simp add: entry_time_def toLogMsg_def committer_time_def)

lemma newest_first_first_entries:
  assumes "newest_first (map committer_time cs)"
  shows "newest_first (map committer_time (first_entries limit (filter P cs)))"
proof -
  have "sorted_wrt (\<lambda>a b. committer_time a \<ge> committer_time b) cs"
    using assms by (simp add: newest_first_def sorted_wrt_map)
  then have "sorted_wrt (\<lambda>a b. committer_time a \<ge> committer_time b) (filter P cs)"
    by (rule sorted_wrt_filter)
  then have "sorted_wrt (\<lambda>a b. committer_time a \<ge> committer_time b)
               (first_entries limit (filter P cs))"
    by (simp add: first_entries_def sorted_wrt_take)
  then show ?thesis by (simp add: newest_first_def sorted_wrt_map)
qed

text \<open>
  C5, amended. Over the commits the iterator yields, the loop returns the entries of
  exactly the commits whose committer time lies inside every bound that is set (a zero
  bound is not set), in the iterator's order, cut to the limit: all of them when the
  limit is 0, the first \<open>N\<close> of them when the limit \<open>N\<close> is positive, so exactly
  \<open>N\<close> when more than \<open>N\<close> match. When the iterator yields the newest commit
  first, so does the result.
\<close>

theorem log_query_filter_and_limit:
  "(limit = 0 \<longrightarrow>
      log_loop st en limit 0 cs = map toLogMsg (filter (inside_bounds st en) cs))
   \<and> (0 < limit \<longrightarrow>
      log_loop st en limit 0 cs
        = map toLogMsg (take (nat limit) (filter (inside_bounds st en) cs)))
   \<and> (0 < limit \<and> limit < int (length (filter (inside_bounds st en) cs)) \<longrightarrow>
      int (length (log_loop st en limit 0 cs)) = limit)
   \<and> (newest_first (map committer_time cs) \<longrightarrow>
      newest_first (map entry_time (log_loop st en limit 0 cs)))"
proof (intro conjI impI)
  assume "limit = 0"
  then show "log_loop st en limit 0 cs = map toLogMsg (filter (inside_bounds st en) cs)"
    by (simp add: log_loop_eq)
next
  assume "0 < limit"
  then show "log_loop st en limit 0 cs
               = map toLogMsg (take (nat limit) (filter (inside_bounds st en) cs))"
    by (simp add: log_loop_eq max_def)
next
  assume "0 < limit \<and> limit < int (length (filter (inside_bounds st en) cs))"
  then have "0 < limit" and "nat limit \<le> length (filter (inside_bounds st en) cs)"
    by linarith+
  then show "int (length (log_loop st en limit 0 cs)) = limit"
    by (simp add: log_loop_eq max_def min_def)
next
  assume "newest_first (map committer_time cs)"
  then have "newest_first (map committer_time
               (first_entries limit (filter (inside_bounds st en) cs)))"
    by (rule newest_first_first_entries)
  moreover have "map entry_time (map toLogMsg xs) = map committer_time xs" for xs
    by (simp add: entry_time_toLogMsg)
  ultimately show "newest_first (map entry_time (log_loop st en limit 0 cs))"
    by (simp only: log_loop_first_entries)
qed

lemma threeCommits_times:
  "map committer_time threeCommits = [20240103000000, 20240102000000, 20240101000000]"
  by (simp add: threeCommits_def commitAt_def committer_time_def)

lemma inside_bounds_commitAt:
  "inside_bounds st en (commitAt h t) \<longleftrightarrow> (st = 0 \<or> st \<le> t) \<and> (en = 0 \<or> t \<le> en)"
  by (simp add: inside_bounds_def commitAt_def committer_time_def)

lemma committer_time_commitAt: "committer_time (commitAt h t) = t"
  by (simp add: commitAt_def committer_time_def)

lemma log_loop_threeCommits:
  "log_loop 0 0 0 0 threeCommits = map toLogMsg threeCommits"
  "log_loop 20240101000001 20240102235959 10 0 threeCommits
     = [toLogMsg (commitAt ''h2'' 20240102000000)]"
  "log_loop 0 0 2 0 threeCommits
     = [toLogMsg (commitAt ''h3'' 20240103000000), toLogMsg (commitAt ''h2'' 20240102000000)]"
  "log_loop 0 0 (-1) 0 threeCommits = [toLogMsg (commitAt ''h3'' 20240103000000)]"
  "filter (inside_bounds 0 0) threeCommits = threeCommits"
  by (simp_all add: threeCommits_def out_of_range_iff inside_bounds_commitAt)

theorem log_query_filter_and_limit_witness:
  "log_loop 0 0 0 0 threeCommits = map toLogMsg threeCommits
   \<and> log_loop 20240101000001 20240102235959 10 0 threeCommits
       = [toLogMsg (commitAt ''h2'' 20240102000000)]
   \<and> (0::int) < 2 \<and> 2 < int (length (filter (inside_bounds 0 0) threeCommits))
   \<and> int (length (log_loop 0 0 2 0 threeCommits)) = 2
   \<and> log_loop 0 0 2 0 threeCommits
       = [toLogMsg (commitAt ''h3'' 20240103000000), toLogMsg (commitAt ''h2'' 20240102000000)]
   \<and> newest_first (map committer_time threeCommits)
   \<and> newest_first (map entry_time (log_loop 0 0 2 0 threeCommits))"
  using log_query_filter_and_limit [of 0 0 0 threeCommits]
        log_query_filter_and_limit [of 10 20240101000001 20240102235959 threeCommits]
        log_query_filter_and_limit [of 2 0 0 threeCommits]
  by (simp add: log_loop_threeCommits threeCommits_times newest_first_def entry_time_toLogMsg
        committer_time_commitAt)
     (simp add: threeCommits_def)

text \<open>
  C5 as stated fails for a negative limit, which is nonzero: with the limit \<open>-1\<close> and
  three matching commits, more than \<open>-1\<close> commits match and one entry is returned.
\<close>

theorem log_query_negative_limit_counterexample:
  "(-1::int) \<noteq> 0
   \<and> -1 < int (length (filter (inside_bounds 0 0) threeCommits))
   \<and> int (length (log_loop 0 0 (-1) 0 threeCommits)) \<noteq> -1
   \<and> log_loop 0 0 (-1) 0 threeCommits = [toLogMsg (commitAt ''h3'' 20240103000000)]"
  by (simp add: log_loop_threeCommits)

section \<open>Running the nodes on the concrete collaborators\<close>

lemma GetValue_emptyMsg: "GetValue emptyMsg k = []"
  by (simp add: GetValue_def emptyMsg_def)

lemmas key_defs = KeyWorkDir_def KeyRef_def KeyGitSshUrl_def KeyGitHttpUrl_def KeyHash_def

lemma short_name_eval: "short_name U = TrimSuffix (basename U) ''.git''"
  by (simp add: short_name_def TrimSuffix_def HasSuffix_iff Let_def)

lemmas base_defs =
  getWorkDir_def getRepository_def getRepoName_def getReferenceName_def getRefSpecs_def
  getAuthMethod_def getProxy_def clone_proxy_def clone_ref_def ProxyOptions_zero_def
  build_evn_def evn_PutValue_simps rendered_def TrimSuffix_def HasSuffix_def path_Join_def path_Clean_def
  baseGitNodeConfiguration_zero_def Map2Struct_base_def field_def emptyConfiguration_def
  GetValue_PutValue GetValue_emptyMsg scenarioMsg_def Let_def

lemma stdGit_simps:
  "PlainClone stdGit dir co = None"
  "PlainOpen stdGit dir = Inr (Repository_at dir)"
  "Worktree_of stdGit (Repository_at dir) = Inr (Worktree_at dir)"
  "Pull stdGit w po = Some NoErrAlreadyUpToDate"
  "Status_IsClean stdGit w = Inr True"
  "Head stdGit r = Inl (LibError ''reference not found'')"
  "nil_Reference_Hash stdGit = None"
  "CommitObject stdGit r h = Inl (LibError ''object not found'')"
  "Push stdGit r pu = None"
  "Log stdGit r = Inr threeCommits"
  by (simp_all add: stdGit_def)

lemma refusingGit_simps:
  "PlainOpen refusingGit dir = Inr (Repository_at dir)"
  "Worktree_of refusingGit (Repository_at dir) = Inr (Worktree_at dir)"
  "Pull refusingGit w po = Some (LibError ''authentication required'')"
  by (simp_all add: refusingGit_def stdGit_def)

lemma headGit_simps:
  "PlainOpen headGit dir = Inr (Repository_at dir)"
  "Worktree_of headGit (Repository_at dir) = Inr (Worktree_at dir)"
  "Pull headGit w po = Some NoErrAlreadyUpToDate"
  "Status_IsClean headGit w = Inr True"
  "Head headGit r = Inr (NewHashReference ''HEAD'' ''abc'')"
  "CommitObject headGit r h = Inl (LibError ''object not found'')"
  "Push headGit r pu = None"
  "Log headGit r = Inr threeCommits"
  by (simp_all add: headGit_def stdGit_def)

lemma stdLib_simps:
  "CheckHasVar stdLib s = (has_open s \<and> CHR ''}'' \<in> set s)"
  "ExecuteTemplate stdLib s e = render_scan (lookup_key e) None s"
  "Template_Execute stdLib (NewTemplate s) None = s"
  "Template_Execute stdLib (NewTemplate s) (Some e) = render_scan (lookup_key e) None s"
  "ToString stdLib ms = concat (map (\<lambda>m. LogMsg.Hash m @ '';'') ms)"
  "time_Parse stdLib = read_time"
  "time_Now stdLib = 20240601120000"
  "Stat_IsNotExist stdLib dir = False"
  "NewPublicKeysFromFile stdLib user pemFile password =
     (if pemFile = [] then Inl (LibError ''open : no such file or directory'')
      else Inr (PublicKeys user pemFile password))"
  "TrimSpace stdLib s
     = rev (dropWhile (\<lambda>c. c = CHR '' '') (rev (dropWhile (\<lambda>c. c = CHR '' '') s)))"
  by (simp_all add: stdLib_def)

lemma cloneNode_simps:
  "getWorkDir stdLib (GitCloneNode.base cloneNode) scenarioMsg None = Some ''/base/repo''"
  "GitCloneNode.hasVar cloneNode = False"
  "getAuthMethod stdLib (GitCloneNode.base cloneNode) = Inr (BasicAuth [] [])"
  "derived_directory stdLib (GitCloneNode.base cloneNode) False scenarioMsg = ''/base/repo''"
  "base_directory stdLib (GitCloneNode.base cloneNode) scenarioMsg None = ''/base''"
  "getRepository stdLib (GitCloneNode.base cloneNode) scenarioMsg None
     = ''https://example/repo.git''"
  by (simp_all add: cloneNode_def GitCloneNode_Init_def GitCloneNode_New_def
        Map2Struct_clone_def base_defs key_defs stdLib_simps derived_directory_def
        base_directory_def short_name_eval basename_def)

lemma pushNode_simps:
  "getWorkDir stdLib (GitPushNode.base pushNode) scenarioMsg None = Some ''/base/repo''"
  "GitPushNode.hasVar pushNode = False"
  "getAuthMethod stdLib (GitPushNode.base pushNode) = Inr (BasicAuth [] [])"
  "derived_directory stdLib (GitPushNode.base pushNode) False scenarioMsg = ''/base/repo''"
  by (simp_all add: pushNode_def GitPushNode_Init_def GitPushNode_New_def
        Map2Struct_push_def base_defs key_defs stdLib_simps derived_directory_def
        base_directory_def short_name_eval basename_def)

lemma commitNode_simps:
  "getWorkDir stdLib (GitCommitNode.base commitNode) scenarioMsg None = Some ''/base/repo''"
  "GitCommitNode.hasVar commitNode = False"
  "derived_directory stdLib (GitCommitNode.base commitNode) False scenarioMsg = ''/base/repo''"
  by (simp_all add: commitNode_def GitCommitNode_Init_def GitCommitNode_New_def
        Map2Struct_commit_def Signature_zero_def base_defs key_defs stdLib_simps
        derived_directory_def base_directory_def short_name_eval basename_def)

lemma tagNode_simps:
  "getWorkDir stdLib (GitCreateTagNode.base tagNode) scenarioMsg None = Some ''/base/repo''"
  "GitCreateTagNode.hasVar tagNode = False"
  "derived_directory stdLib (GitCreateTagNode.base tagNode) False scenarioMsg = ''/base/repo''"
  by (simp_all add: tagNode_def GitCreateTagNode_Init_def GitCreateTagNode_New_def
        Map2Struct_tag_def Signature_zero_def base_defs key_defs stdLib_simps
        derived_directory_def base_directory_def short_name_eval basename_def)

lemma logNode_simps:
  "getWorkDir stdLib (GitLogNode.base logNode) scenarioMsg None = Some ''/base/repo''"
  "GitLogNode.hasVar logNode = False"
  "derived_directory stdLib (GitLogNode.base logNode) False scenarioMsg = ''/base/repo''"
  "startTimeTemplate logNode = Some (NewTemplate [])"
  "endTimeTemplate logNode = Some (NewTemplate [])"
  "Limit (GitLogNode.Config logNode) = 10"
  by (simp_all add: logNode_def GitLogNode_Init_def GitLogNode_New_def
        Map2Struct_log_def base_defs key_defs stdLib_simps
        derived_directory_def base_directory_def short_name_eval basename_def)

lemma cloneNode_run:
  "GitCloneNode_OnMsg stdLib stdGit cloneNode scenarioMsg
     = Returned [TellSuccess (PutValue scenarioMsg KeyWorkDir ''/base/repo'')]"
  "GitCloneNode_OnMsg stdLib headGit cloneNode scenarioMsg
     = Returned [TellSuccess (PutValue scenarioMsg KeyWorkDir ''/base/repo'')]"
  "GitCloneNode_OnMsg stdLib refusingGit cloneNode scenarioMsg
     = Returned [TellFailure (PutValue scenarioMsg KeyWorkDir ''/base/repo'')
                   (LibError ''authentication required'')]"
  by (simp_all add: GitCloneNode_OnMsg_def cloneNode_simps build_evn_def evn_PutValue_simps stdLib_simps
        stdGit_simps headGit_simps refusingGit_simps Let_def)

lemma pushNode_run:
  "GitPushNode_OnMsg stdLib headGit pushNode scenarioMsg
     = Returned [TellSuccess (PutValue scenarioMsg KeyWorkDir ''/base/repo'')]"
  by (simp add: GitPushNode_OnMsg_def pushNode_simps build_evn_def evn_PutValue_simps stdLib_simps
        headGit_simps Let_def)

lemma commitNode_run:
  "GitCommitNode_OnMsg stdLib headGit commitNode scenarioMsg
     = Returned [TellFailure (PutValue scenarioMsg KeyWorkDir ''/base/repo'')
                   (ErrorsNew ''no changes to commit'')]"
  by (simp add: GitCommitNode_OnMsg_def commitNode_simps build_evn_def evn_PutValue_simps stdLib_simps
        headGit_simps Let_def)

lemma tagNode_run:
  "GitCreateTagNode_OnMsg stdLib headGit tagNode scenarioMsg
     = Returned [TellFailure (PutValue scenarioMsg KeyWorkDir ''/base/repo'')
                   (LibError ''object not found'')]"
  "GitCreateTagNode_OnMsg stdLib stdGit tagNode scenarioMsg = Panicked []"
  by (simp_all add: GitCreateTagNode_OnMsg_def tagNode_simps build_evn_def evn_PutValue_simps stdLib_simps
        headGit_simps stdGit_simps head_Hash_def Let_def)

lemma ToString_threeCommits: "ToString stdLib (map toLogMsg threeCommits) = ''h3;h2;h1;''"
  by (simp add: stdLib_simps threeCommits_def toLogMsg_def commitAt_def)

lemma logNode_run:
  "GitLogNode_OnMsg stdLib headGit logNode scenarioMsg
     = Returned [TellSuccess
         ((PutValue scenarioMsg KeyWorkDir ''/base/repo'')
            \<lparr>DataType := ''JSON'', Data := ''h3;h2;h1;''\<rparr>)]"
proof -
  have "log_loop 0 0 10 0 threeCommits = map toLogMsg threeCommits"
    by (simp add: threeCommits_def out_of_range_iff inside_bounds_commitAt)
  then show ?thesis
    by (simp add: GitLogNode_OnMsg_def logNode_simps build_evn_def evn_PutValue_simps stdLib_simps(3,6,8)
          headGit_simps bare_date_def parse_time_def read_time_def ToString_threeCommits
          Let_def)
qed

lemma scenario_join:
  "path_Join ''/base'' (short_name ''https://example/repo.git'') = ''/base/repo''"
  by (simp add: short_name_eval basename_def TrimSuffix_def HasSuffix_def path_Join_def
        path_Clean_def)

theorem work_directory_derivation_witness:
  "getWorkDir stdLib (GitCloneNode.base cloneNode) scenarioMsg None
     = Some (path_Join ''/base'' (short_name ''https://example/repo.git''))
   \<and> path_Join ''/base'' (short_name ''https://example/repo.git'') = ''/base/repo''
   \<and> signals (GitCloneNode_OnMsg stdLib headGit cloneNode scenarioMsg)
       = [TellSuccess (PutValue scenarioMsg KeyWorkDir ''/base/repo'')]
   \<and> signals (GitCommitNode_OnMsg stdLib headGit commitNode scenarioMsg)
       = [TellFailure (PutValue scenarioMsg KeyWorkDir ''/base/repo'')
            (ErrorsNew ''no changes to commit'')]
   \<and> signals (GitCreateTagNode_OnMsg stdLib headGit tagNode scenarioMsg)
       = [TellFailure (PutValue scenarioMsg KeyWorkDir ''/base/repo'')
            (LibError ''object not found'')]
   \<and> signals (GitPushNode_OnMsg stdLib headGit pushNode scenarioMsg)
       = [TellSuccess (PutValue scenarioMsg KeyWorkDir ''/base/repo'')]
   \<and> signals (GitLogNode_OnMsg stdLib headGit logNode scenarioMsg)
       = [TellSuccess ((PutValue scenarioMsg KeyWorkDir ''/base/repo'')
            \<lparr>DataType := ''JSON'', Data := ''h3;h2;h1;''\<rparr>)]
   \<and> GetValue (PutValue scenarioMsg KeyWorkDir ''/base/repo'') KeyWorkDir = ''/base/repo''
   \<and> derived_directory stdLib (GitCloneNode.base cloneNode) (GitCloneNode.hasVar cloneNode)
        scenarioMsg = ''/base/repo''
   \<and> derived_directory stdLib (GitLogNode.base logNode) (GitLogNode.hasVar logNode)
        scenarioMsg = ''/base/repo''"
  using work_directory_derivation [of stdLib "GitCloneNode.base cloneNode" scenarioMsg None
          headGit cloneNode commitNode tagNode pushNode logNode]
  by (simp add: cloneNode_run pushNode_run commitNode_run tagNode_run logNode_run
        cloneNode_simps logNode_simps GetValue_PutValue scenario_join)

lemma liveCloneNode_simps:
  "GitCloneNode.hasVar liveCloneNode = True"
  "getAuthMethod stdLib (GitCloneNode.base liveCloneNode) = Inr (BasicAuth [] [])"
  "getReferenceName stdLib (GitCloneNode.base liveCloneNode) liveMsg
     (Some (GetEvnAndMetadata liveMsg)) = []"
  "clone_proxy (GitCloneNode.base liveCloneNode) = ProxyOptions_zero"
  "getRepository stdLib (GitCloneNode.base liveCloneNode) liveMsg
     (Some (GetEvnAndMetadata liveMsg)) = ''rem/w.git''"
  "getWorkDir stdLib (GitCloneNode.base liveCloneNode) liveMsg
     (Some (GetEvnAndMetadata liveMsg)) = Some ''w/w''"
  "getRepository stdLib (GitCloneNode.base liveCloneNode)
     (PutValue liveMsg KeyWorkDir ''w/w'')
     (Some (GetEvnAndMetadata (PutValue liveMsg KeyWorkDir ''w/w''))) = ''rem/w/w.git''"
  by (simp_all add: liveCloneNode_def GitCloneNode_Init_def GitCloneNode_New_def
        Map2Struct_clone_def base_defs key_defs stdLib_simps lookup_key_def liveMsg_def)

lemma urlGit_simps:
  "PlainOpen urlGit dir = Inr (Repository_at dir)"
  "Worktree_of urlGit (Repository_at dir) = Inr (Worktree_at dir)"
  "Pull urlGit w po =
     (if PullOptions.RemoteURL po = ''rem/w/w.git'' then Some NoErrAlreadyUpToDate
      else Some (LibError ''repository not found''))"
  by (simp_all add: urlGit_def stdGit_def)

theorem clone_pull_outcome_witness:
  "getWorkDir stdLib (GitCloneNode.base cloneNode) scenarioMsg
       (build_evn (GitCloneNode.hasVar cloneNode) scenarioMsg) = Some ''/base/repo''
   \<and> \<not> Stat_IsNotExist stdLib ''/base/repo''
   \<and> PlainOpen stdGit ''/base/repo'' = Inr (Repository_at ''/base/repo'')
   \<and> Worktree_of stdGit (Repository_at ''/base/repo'') = Inr (Worktree_at ''/base/repo'')
   \<and> getAuthMethod stdLib (GitCloneNode.base cloneNode) = Inr (BasicAuth [] [])
   \<and> GitCloneNode_OnMsg stdLib stdGit cloneNode scenarioMsg
       = Returned [TellSuccess (PutValue scenarioMsg KeyWorkDir ''/base/repo'')]
   \<and> GitCloneNode_OnMsg stdLib refusingGit cloneNode scenarioMsg
       = Returned [TellFailure (PutValue scenarioMsg KeyWorkDir ''/base/repo'')
                     (LibError ''authentication required'')]
   \<and> getWorkDir stdLib (GitCloneNode.base liveCloneNode) liveMsg
       (build_evn (GitCloneNode.hasVar liveCloneNode) liveMsg) = Some ''w/w''
   \<and> getRepository stdLib (GitCloneNode.base liveCloneNode)
       (PutValue liveMsg KeyWorkDir ''w/w'')
       (evn_PutValue (build_evn (GitCloneNode.hasVar liveCloneNode) liveMsg) KeyWorkDir ''w/w'')
       = ''rem/w/w.git''
   \<and> GitCloneNode_OnMsg stdLib urlGit liveCloneNode liveMsg
       = Returned [TellSuccess (PutValue liveMsg KeyWorkDir ''w/w'')]"
  using clone_pull_outcome [where L = stdLib and G = stdGit and x = cloneNode
          and msg = scenarioMsg and workDir = "''/base/repo''"
          and r = "Repository_at ''/base/repo''" and w = "Worktree_at ''/base/repo''"
          and auth = "BasicAuth [] []", OF refl _ refl refl _ _ _ _ refl]
        clone_pull_outcome [where L = stdLib and G = refusingGit and x = cloneNode
          and msg = scenarioMsg and workDir = "''/base/repo''"
          and r = "Repository_at ''/base/repo''" and w = "Worktree_at ''/base/repo''"
          and auth = "BasicAuth [] []", OF refl _ refl refl _ _ _ _ refl]
        clone_pull_outcome [where L = stdLib and G = urlGit and x = liveCloneNode
          and msg = liveMsg and workDir = "''w/w''"
          and r = "Repository_at ''w/w''" and w = "Worktree_at ''w/w''"
          and auth = "BasicAuth [] []", OF refl _ refl refl _ _ _ _ refl]
  by (simp add: cloneNode_simps liveCloneNode_simps build_evn_def evn_PutValue_simps
        stdLib_simps(8) stdGit_simps refusingGit_simps urlGit_simps)

theorem commit_clean_tree_witness:
  "getWorkDir stdLib (GitCommitNode.base commitNode) scenarioMsg
       (build_evn (GitCommitNode.hasVar commitNode) scenarioMsg) = Some ''/base/repo''
   \<and> PlainOpen stdGit ''/base/repo'' = Inr (Repository_at ''/base/repo'')
   \<and> Worktree_of stdGit (Repository_at ''/base/repo'') = Inr (Worktree_at ''/base/repo'')
   \<and> Status_IsClean stdGit (Worktree_at ''/base/repo'') = Inr True
   \<and> GitCommitNode_OnMsg stdLib stdGit commitNode scenarioMsg
       = Returned [TellFailure (PutValue scenarioMsg KeyWorkDir ''/base/repo'')
                     (ErrorsNew ''no changes to commit'')]
   \<and> Metadata (PutValue scenarioMsg KeyWorkDir ''/base/repo'') KeyHash
       = Metadata scenarioMsg KeyHash"
  using commit_clean_tree [of stdLib commitNode scenarioMsg "''/base/repo''" stdGit
          "Repository_at ''/base/repo''" "Worktree_at ''/base/repo''"]
  by (simp add: commitNode_simps build_evn_def evn_PutValue_simps stdGit_simps)

section \<open>Time bounds that do not parse\<close>

lemma log_OnMsg_success:
  assumes "startTimeTemplate x = Some st"
    and "endTimeTemplate x = Some et"
    and "evn = build_evn (GitLogNode.hasVar x) msg"
    and "getWorkDir L (GitLogNode.base x) msg evn = Some workDir"
    and "evn' = evn_PutValue evn KeyWorkDir workDir"
    and "PlainOpen G workDir = Inr r"
    and "Log G r = Inr commits"
  shows "GitLogNode_OnMsg L G x msg =
           Returned [TellSuccess
             ((PutValue msg KeyWorkDir workDir)
                \<lparr>DataType := ''JSON'',
                 Data := ToString L
                   (log_loop
                      (parse_time L (bare_date (Template_Execute L st evn') '' 00:00:00''))
                      (parse_time L (bare_date (Template_Execute L et evn') '' 23:59:59''))
                      (Limit (GitLogNode.Config x)) 0 commits)\<rparr>)]"
  using assms by (simp add: GitLogNode_OnMsg_def Let_def)

text \<open>
  C10. A start or end time string that \<open>time.Parse\<close> rejects (the string rendered
  from the template, with the clock appended when it has exactly ten characters) gives
  the zero time, which is an unset bound: the log node still signals Success, and the
  entries are those of the commits inside the other bound alone, cut to the limit.
\<close>

theorem unparsable_bound_is_unbounded:
  assumes "startTimeTemplate x = Some st"
    and "endTimeTemplate x = Some et"
    and "evn = build_evn (GitLogNode.hasVar x) msg"
    and "getWorkDir L (GitLogNode.base x) msg evn = Some workDir"
    and "evn' = evn_PutValue evn KeyWorkDir workDir"
    and "PlainOpen G workDir = Inr r"
    and "Log G r = Inr commits"
    and "startTimeStr = bare_date (Template_Execute L st evn') '' 00:00:00''"
    and "endTimeStr = bare_date (Template_Execute L et evn') '' 23:59:59''"
    and "limit = Limit (GitLogNode.Config x)"
    and "msg' = PutValue msg KeyWorkDir workDir"
  shows "(length (Template_Execute L st evn') = 10 \<longrightarrow>
            startTimeStr = Template_Execute L st evn' @ '' 00:00:00'')
       \<and> (length (Template_Execute L et evn') = 10 \<longrightarrow>
            endTimeStr = Template_Execute L et evn' @ '' 23:59:59'')
       \<and> (\<forall>e. time_Parse L startTimeStr = Inl e \<longrightarrow>
            GitLogNode_OnMsg L G x msg =
              Returned [TellSuccess
                (msg'\<lparr>DataType := ''JSON'',
                      Data := ToString L (map toLogMsg (first_entries limit
                        (filter (\<lambda>c. parse_time L endTimeStr = 0
                                      \<or> committer_time c \<le> parse_time L endTimeStr)
                           commits)))\<rparr>)])
       \<and> (\<forall>e. time_Parse L endTimeStr = Inl e \<longrightarrow>
            GitLogNode_OnMsg L G x msg =
              Returned [TellSuccess
                (msg'\<lparr>DataType := ''JSON'',
                      Data := ToString L (map toLogMsg (first_entries limit
                        (filter (\<lambda>c. parse_time L startTimeStr = 0
                                      \<or> parse_time L startTimeStr \<le> committer_time c)
                           commits)))\<rparr>)])"
proof -
  have run: "GitLogNode_OnMsg L G x msg =
           Returned [TellSuccess
             (msg'\<lparr>DataType := ''JSON'',
                   Data := ToString L
                     (map toLogMsg (first_entries limit
                        (filter (inside_bounds (parse_time L startTimeStr)
                                   (parse_time L endTimeStr)) commits)))\<rparr>)]"
    using log_OnMsg_success [OF assms(1-7)] assms(8-11)
    by (simp add: log_loop_first_entries)
  have only_end: "inside_bounds 0 b = (\<lambda>c. b = 0 \<or> committer_time c \<le> b)" for b
    by (rule ext) (simp add: inside_bounds_def)
  have only_start: "inside_bounds a 0 = (\<lambda>c. a = 0 \<or> a \<le> committer_time c)" for a
    by (rule ext) (simp add: inside_bounds_def)
  show ?thesis
  proof (intro conjI allI impI)
    assume "length (Template_Execute L st evn') = 10"
    then show "startTimeStr = Template_Execute L st evn' @ '' 00:00:00''"
      using assms(8) by (auto simp: bare_date_def)
  next
    assume "length (Template_Execute L et evn') = 10"
    then show "endTimeStr = Template_Execute L et evn' @ '' 23:59:59''"
      using assms(9) by (auto simp: bare_date_def)
  next
    fix e assume "time_Parse L startTimeStr = Inl e"
    then have "parse_time L startTimeStr = 0"
      by (simp add: parse_time_def)
    then show "GitLogNode_OnMsg L G x msg =
              Returned [TellSuccess
                (msg'\<lparr>DataType := ''JSON'',
                      Data := ToString L (map toLogMsg (first_entries limit
                        (filter (\<lambda>c. parse_time L endTimeStr = 0
                                      \<or> committer_time c \<le> parse_time L endTimeStr)
                           commits)))\<rparr>)]"
      by (simp only: run only_end)
  next
    fix e assume "time_Parse L endTimeStr = Inl e"
    then have "parse_time L endTimeStr = 0"
      by (simp add: parse_time_def)
    then show "GitLogNode_OnMsg L G x msg =
              Returned [TellSuccess
                (msg'\<lparr>DataType := ''JSON'',
                      Data := ToString L (map toLogMsg (first_entries limit
                        (filter (\<lambda>c. parse_time L startTimeStr = 0
                                      \<or> parse_time L startTimeStr \<le> committer_time c)
                           commits)))\<rparr>)]"
      by (simp only: run only_start)
  qed
qed

lemma looseLogNode_simps:
  "getWorkDir stdLib (GitLogNode.base looseLogNode) scenarioMsg None = Some ''/base/repo''"
  "GitLogNode.hasVar looseLogNode = False"
  "startTimeTemplate looseLogNode = Some (NewTemplate ''yesterday'')"
  "endTimeTemplate looseLogNode = Some (NewTemplate ''2024-01-02'')"
  "Limit (GitLogNode.Config looseLogNode) = 10"
  by (simp_all add: looseLogNode_def GitLogNode_Init_def GitLogNode_New_def
        Map2Struct_log_def base_defs key_defs stdLib_simps)

lemma slashLogNode_simps:
  "getWorkDir stdLib (GitLogNode.base slashLogNode) scenarioMsg None = Some ''/base/repo''"
  "GitLogNode.hasVar slashLogNode = False"
  "startTimeTemplate slashLogNode = Some (NewTemplate ''2024/01/02'')"
  "endTimeTemplate slashLogNode = Some (NewTemplate [])"
  "Limit (GitLogNode.Config slashLogNode) = 10"
  by (simp_all add: slashLogNode_def GitLogNode_Init_def GitLogNode_New_def
        Map2Struct_log_def base_defs key_defs stdLib_simps)

lemma read_time_examples:
  "read_time ''yesterday'' = Inl (LibError ''parsing time'')"
  "read_time ''2024/01/02 00:00:00'' = Inl (LibError ''parsing time'')"
  "read_time [] = Inl (LibError ''parsing time'')"
  "read_time '' 23:59:59'' = Inl (LibError ''parsing time'')"
  "read_time ''2024-01-02 23:59:59'' = Inr 20240102235959"
  by (simp_all add: read_time_def digits_value_def)

theorem unparsable_bound_is_unbounded_witness:
  "time_Parse stdLib (bare_date (Template_Execute stdLib (NewTemplate ''yesterday'') None)
       '' 00:00:00'') = Inl (LibError ''parsing time'')
   \<and> GitLogNode_OnMsg stdLib stdGit looseLogNode scenarioMsg =
       Returned [TellSuccess
         ((PutValue scenarioMsg KeyWorkDir ''/base/repo'')
            \<lparr>DataType := ''JSON'',
             Data := ToString stdLib
               [toLogMsg (commitAt ''h2'' 20240102000000),
                toLogMsg (commitAt ''h1'' 20240101000000)]\<rparr>)]
   \<and> length (Template_Execute stdLib (NewTemplate ''2024/01/02'') None) = 10
   \<and> time_Parse stdLib ''2024/01/02 00:00:00'' = Inl (LibError ''parsing time'')
   \<and> time_Parse stdLib (bare_date (Template_Execute stdLib (NewTemplate []) None)
       '' 23:59:59'') = Inl (LibError ''parsing time'')
   \<and> GitLogNode_OnMsg stdLib stdGit slashLogNode scenarioMsg =
       Returned [TellSuccess
         ((PutValue scenarioMsg KeyWorkDir ''/base/repo'')
            \<lparr>DataType := ''JSON'',
             Data := ToString stdLib (map toLogMsg threeCommits)\<rparr>)]"
  using unparsable_bound_is_unbounded [where L = stdLib and G = stdGit and x = looseLogNode
          and msg = scenarioMsg and workDir = "''/base/repo''"
          and r = "Repository_at ''/base/repo''" and commits = threeCommits
          and st = "NewTemplate ''yesterday''" and et = "NewTemplate ''2024-01-02''",
          OF _ _ refl _ refl _ _ refl refl refl refl]
        unparsable_bound_is_unbounded [where L = stdLib and G = stdGit and x = slashLogNode
          and msg = scenarioMsg and workDir = "''/base/repo''"
          and r = "Repository_at ''/base/repo''" and commits = threeCommits
          and st = "NewTemplate ''2024/01/02''" and et = "NewTemplate []",
          OF _ _ refl _ refl _ _ refl refl refl refl]
  by (simp add: looseLogNode_simps slashLogNode_simps build_evn_def evn_PutValue_simps stdLib_simps(3,6,8)
        stdGit_simps bare_date_def read_time_examples parse_time_def first_entries_def)
     (simp add: threeCommits_def committer_time_commitAt)

section \<open>Precedence of configuration, metadata and templates\<close>

lemma render_plain:
  "renders_plain L \<Longrightarrow> \<not> CheckHasVar L s \<Longrightarrow> rendered L s evn = s"
  by (cases evn) (simp_all add: renders_plain_def rendered_def)

lemma clone_Init_hasVar:
  "GitCloneNode.hasVar (GitCloneNode_Init L GitCloneNode_New conf) \<longleftrightarrow>
     CheckHasVar L (field (key_repository conf) [])
     \<or> CheckHasVar L (field (key_directory conf) [])
     \<or> CheckHasVar L (field (key_reference conf) ''refs/heads/main'')"
  by (simp add: GitCloneNode_Init_def GitCloneNode_New_def Map2Struct_clone_def Let_def)

lemma clone_Init_base:
  "baseGitNodeConfiguration.Repository
     (baseGitNode.Config (GitCloneNode.base (GitCloneNode_Init L GitCloneNode_New conf)))
     = field (key_repository conf) []"
  "baseGitNodeConfiguration.Directory
     (baseGitNode.Config (GitCloneNode.base (GitCloneNode_Init L GitCloneNode_New conf)))
     = field (key_directory conf) []"
  "baseGitNodeConfiguration.Reference
     (baseGitNode.Config (GitCloneNode.base (GitCloneNode_Init L GitCloneNode_New conf)))
     = field (key_reference conf) []"
  by (simp_all add: GitCloneNode_Init_def GitCloneNode_New_def Map2Struct_base_def
        baseGitNodeConfiguration_zero_def Let_def)

lemma field_present: "field v [] \<noteq> [] \<Longrightarrow> field v d = field v []"
  by (cases v) (simp_all add: field_def)

lemma clone_flag:
  assumes "n = GitCloneNode_Init L GitCloneNode_New conf"
    and "b = baseGitNode.Config (GitCloneNode.base n)"
    and "has_markers L (baseGitNodeConfiguration.Reference b)
         \<or> has_markers L (baseGitNodeConfiguration.Repository b)
         \<or> has_markers L (baseGitNodeConfiguration.Directory b)"
  shows "GitCloneNode.hasVar n"
proof -
  have "(field (key_reference conf) [] \<noteq> [] \<and> CheckHasVar L (field (key_reference conf) []))
        \<or> CheckHasVar L (field (key_repository conf) [])
        \<or> CheckHasVar L (field (key_directory conf) [])"
    using assms(3) unfolding assms(1,2) clone_Init_base has_markers_def by blast
  then have "CheckHasVar L (field (key_reference conf) ''refs/heads/main'')
        \<or> CheckHasVar L (field (key_repository conf) [])
        \<or> CheckHasVar L (field (key_directory conf) [])"
    using field_present [of "key_reference conf" "''refs/heads/main''"] by auto
  then show ?thesis
    unfolding assms(1) clone_Init_hasVar by blast
qed

lemma push_Init_hasVar:
  "GitPushNode.hasVar (GitPushNode_Init L GitPushNode_New conf) \<longleftrightarrow>
     CheckHasVar L (field (key_repository conf) [])
     \<or> CheckHasVar L (field (key_directory conf) [])
     \<or> CheckHasVar L (field (key_refSpecs conf) [])"
  by (simp add: GitPushNode_Init_def GitPushNode_New_def Map2Struct_push_def Let_def)

lemma push_Init_base:
  "baseGitNodeConfiguration.Repository
     (baseGitNode.Config (GitPushNode.base (GitPushNode_Init L GitPushNode_New conf)))
     = field (key_repository conf) []"
  "baseGitNodeConfiguration.Directory
     (baseGitNode.Config (GitPushNode.base (GitPushNode_Init L GitPushNode_New conf)))
     = field (key_directory conf) []"
  by (simp_all add: GitPushNode_Init_def GitPushNode_New_def Map2Struct_base_def
        baseGitNodeConfiguration_zero_def Let_def)

lemma push_flag:
  assumes "n = GitPushNode_Init L GitPushNode_New conf"
    and "b = baseGitNode.Config (GitPushNode.base n)"
    and "has_markers L (baseGitNodeConfiguration.Repository b)
         \<or> has_markers L (baseGitNodeConfiguration.Directory b)"
  shows "GitPushNode.hasVar n"
  using assms(3) unfolding assms(1,2) push_Init_base push_Init_hasVar has_markers_def
  by blast

lemma commit_Init_hasVar:
  "CheckHasVar L (field (key_directory conf) []) \<Longrightarrow>
   GitCommitNode.hasVar (GitCommitNode_Init L GitCommitNode_New conf)"
  by (simp add: GitCommitNode_Init_def GitCommitNode_New_def Map2Struct_commit_def Let_def)

lemma commit_Init_base:
  "baseGitNodeConfiguration.Directory
     (baseGitNode.Config (GitCommitNode.base (GitCommitNode_Init L GitCommitNode_New conf)))
     = field (key_directory conf) []"
  by (simp add: GitCommitNode_Init_def GitCommitNode_New_def Map2Struct_base_def
        baseGitNodeConfiguration_zero_def Let_def)

lemma commit_flag:
  assumes "n = GitCommitNode_Init L GitCommitNode_New conf"
    and "b = baseGitNode.Config (GitCommitNode.base n)"
    and "has_markers L (baseGitNodeConfiguration.Directory b)"
  shows "GitCommitNode.hasVar n"
  using assms(3) unfolding assms(1,2) commit_Init_base has_markers_def
  by (simp add: commit_Init_hasVar)

lemma tag_Init_hasVar:
  "CheckHasVar L (field (key_directory conf) []) \<Longrightarrow>
   GitCreateTagNode.hasVar (GitCreateTagNode_Init L GitCreateTagNode_New conf)"
  by (simp add: GitCreateTagNode_Init_def GitCreateTagNode_New_def Map2Struct_tag_def Let_def)

lemma tag_Init_base:
  "baseGitNodeConfiguration.Directory
     (baseGitNode.Config
        (GitCreateTagNode.base (GitCreateTagNode_Init L GitCreateTagNode_New conf)))
     = field (key_directory conf) []"
  by (simp add: GitCreateTagNode_Init_def GitCreateTagNode_New_def Map2Struct_base_def
        baseGitNodeConfiguration_zero_def Let_def)

lemma tag_flag:
  assumes "n = GitCreateTagNode_Init L GitCreateTagNode_New conf"
    and "b = baseGitNode.Config (GitCreateTagNode.base n)"
    and "has_markers L (baseGitNodeConfiguration.Directory b)"
  shows "GitCreateTagNode.hasVar n"
  using assms(3) unfolding assms(1,2) tag_Init_base has_markers_def
  by (simp add: tag_Init_hasVar)

text \<open>
  What the three accessors return, in one equation each.
\<close>

lemma getReferenceName_eq:
  "getReferenceName L x msg evn =
     (if baseGitNodeConfiguration.Reference (baseGitNode.Config x) = []
      then GetValue msg KeyRef
      else rendered L (baseGitNodeConfiguration.Reference (baseGitNode.Config x)) evn)"
  by (simp add: getReferenceName_def rendered_def Let_def)

lemma getRepository_eq:
  "getRepository L x msg evn =
     (if baseGitNodeConfiguration.Repository (baseGitNode.Config x) = [] then
        GetValue msg
          (if baseGitNodeConfiguration.AuthType (baseGitNode.Config x) = ''ssh-key''
              \<or> baseGitNodeConfiguration.AuthType (baseGitNode.Config x) = ''ssh''
           then KeyGitSshUrl else KeyGitHttpUrl)
      else rendered L (baseGitNodeConfiguration.Repository (baseGitNode.Config x)) evn)"
  by (simp add: getRepository_def rendered_def Let_def)

lemma getWorkDir_base:
  "getWorkDir L x msg evn =
     Some (path_Join
       (if baseGitNodeConfiguration.Directory (baseGitNode.Config x) = []
        then GetValue msg KeyWorkDir
        else rendered L (baseGitNodeConfiguration.Directory (baseGitNode.Config x)) evn)
       (short_name (getRepository L x msg evn)))"
  by (simp add: getWorkDir_eq base_directory_def)

lemma rendered_built: "rendered L s (build_evn True msg) = ExecuteTemplate L s (GetEvnAndMetadata msg)"
  by (simp add: rendered_def build_evn_def)

text \<open>
  C1, amended. For every git node, with a renderer that leaves a string without
  markers as it is, each of the fields reference, repository URL and directory
  resolves
  \<^item> to the metadata value under its key (\<open>ref\<close>; \<open>gitSshUrl\<close> for the auth types
    \<open>ssh-key\<close> and \<open>ssh\<close>, \<open>gitHttpUrl\<close> otherwise; \<open>workDir\<close>) when the
    configured literal is empty;
  \<^item> to the literal, whatever the metadata, when it is non-empty and has no markers;
  \<^item> to the template rendered against the execution environment when the literal has
    markers and the node's \<open>Init\<close> looks at that field: the repository, the directory
    and the reference of the clone node, the repository and the directory of the push
    node, the directory of the commit node and of the tag node; and in any node
    whenever its environment was built.

  The work directory is not the resolved directory itself: it is \<open>path.Join\<close> of
  the resolved directory and the short name of the resolved repository.
\<close>

theorem config_precedence:
  assumes "renders_plain L"
    and "c = baseGitNode.Config x"
    and "cl = GitCloneNode_Init L GitCloneNode_New conf"
    and "bc = baseGitNode.Config (GitCloneNode.base cl)"
    and "pu = GitPushNode_Init L GitPushNode_New conf"
    and "bp = baseGitNode.Config (GitPushNode.base pu)"
    and "cm = GitCommitNode_Init L GitCommitNode_New conf"
    and "bm = baseGitNode.Config (GitCommitNode.base cm)"
    and "tg = GitCreateTagNode_Init L GitCreateTagNode_New conf"
    and "bt = baseGitNode.Config (GitCreateTagNode.base tg)"
  shows
    "(baseGitNodeConfiguration.Reference c = [] \<longrightarrow>
        getReferenceName L x msg evn = GetValue msg KeyRef)
     \<and> (baseGitNodeConfiguration.Reference c \<noteq> []
          \<and> \<not> CheckHasVar L (baseGitNodeConfiguration.Reference c) \<longrightarrow>
        getReferenceName L x msg evn = baseGitNodeConfiguration.Reference c)
     \<and> (baseGitNodeConfiguration.Repository c = [] \<longrightarrow>
        getRepository L x msg evn
          = GetValue msg
              (if baseGitNodeConfiguration.AuthType c = ''ssh-key''
                  \<or> baseGitNodeConfiguration.AuthType c = ''ssh''
               then KeyGitSshUrl else KeyGitHttpUrl))
     \<and> (baseGitNodeConfiguration.Repository c \<noteq> []
          \<and> \<not> CheckHasVar L (baseGitNodeConfiguration.Repository c) \<longrightarrow>
        getRepository L x msg evn = baseGitNodeConfiguration.Repository c)
     \<and> (baseGitNodeConfiguration.Directory c = [] \<longrightarrow>
        getWorkDir L x msg evn
          = Some (path_Join (GetValue msg KeyWorkDir)
                    (short_name (getRepository L x msg evn))))
     \<and> (baseGitNodeConfiguration.Directory c \<noteq> []
          \<and> \<not> CheckHasVar L (baseGitNodeConfiguration.Directory c) \<longrightarrow>
        getWorkDir L x msg evn
          = Some (path_Join (baseGitNodeConfiguration.Directory c)
                    (short_name (getRepository L x msg evn))))
     \<and> (has_markers L (baseGitNodeConfiguration.Reference bc) \<longrightarrow>
        getReferenceName L (GitCloneNode.base cl) msg (build_evn (GitCloneNode.hasVar cl) msg)
          = ExecuteTemplate L (baseGitNodeConfiguration.Reference bc) (GetEvnAndMetadata msg))
     \<and> (has_markers L (baseGitNodeConfiguration.Repository bc) \<longrightarrow>
        getRepository L (GitCloneNode.base cl) msg (build_evn (GitCloneNode.hasVar cl) msg)
          = ExecuteTemplate L (baseGitNodeConfiguration.Repository bc) (GetEvnAndMetadata msg))
     \<and> (has_markers L (baseGitNodeConfiguration.Directory bc) \<longrightarrow>
        getWorkDir L (GitCloneNode.base cl) msg (build_evn (GitCloneNode.hasVar cl) msg)
          = Some (path_Join
              (ExecuteTemplate L (baseGitNodeConfiguration.Directory bc) (GetEvnAndMetadata msg))
              (short_name (getRepository L (GitCloneNode.base cl) msg
                 (build_evn (GitCloneNode.hasVar cl) msg)))))
     \<and> (has_markers L (baseGitNodeConfiguration.Repository bp) \<longrightarrow>
        getRepository L (GitPushNode.base pu) msg (build_evn (GitPushNode.hasVar pu) msg)
          = ExecuteTemplate L (baseGitNodeConfiguration.Repository bp) (GetEvnAndMetadata msg))
     \<and> (has_markers L (baseGitNodeConfiguration.Directory bp) \<longrightarrow>
        getWorkDir L (GitPushNode.base pu) msg (build_evn (GitPushNode.hasVar pu) msg)
          = Some (path_Join
              (ExecuteTemplate L (baseGitNodeConfiguration.Directory bp) (GetEvnAndMetadata msg))
              (short_name (getRepository L (GitPushNode.base pu) msg
                 (build_evn (GitPushNode.hasVar pu) msg)))))
     \<and> (has_markers L (baseGitNodeConfiguration.Directory bm) \<longrightarrow>
        getWorkDir L (GitCommitNode.base cm) msg (build_evn (GitCommitNode.hasVar cm) msg)
          = Some (path_Join
              (ExecuteTemplate L (baseGitNodeConfiguration.Directory bm) (GetEvnAndMetadata msg))
              (short_name (getRepository L (GitCommitNode.base cm) msg
                 (build_evn (GitCommitNode.hasVar cm) msg)))))
     \<and> (has_markers L (baseGitNodeConfiguration.Directory bt) \<longrightarrow>
        getWorkDir L (GitCreateTagNode.base tg) msg
            (build_evn (GitCreateTagNode.hasVar tg) msg)
          = Some (path_Join
              (ExecuteTemplate L (baseGitNodeConfiguration.Directory bt) (GetEvnAndMetadata msg))
              (short_name (getRepository L (GitCreateTagNode.base tg) msg
                 (build_evn (GitCreateTagNode.hasVar tg) msg)))))
     \<and> (baseGitNodeConfiguration.Reference c \<noteq> [] \<longrightarrow>
        getReferenceName L x msg (Some e)
          = ExecuteTemplate L (baseGitNodeConfiguration.Reference c) e)
     \<and> (baseGitNodeConfiguration.Repository c \<noteq> [] \<longrightarrow>
        getRepository L x msg (Some e)
          = ExecuteTemplate L (baseGitNodeConfiguration.Repository c) e)
     \<and> (baseGitNodeConfiguration.Directory c \<noteq> [] \<longrightarrow>
        getWorkDir L x msg (Some e)
          = Some (path_Join (ExecuteTemplate L (baseGitNodeConfiguration.Directory c) e)
                    (short_name (getRepository L x msg (Some e)))))"
proof -
  note plain = render_plain [OF assms(1)]
  have some: "rendered L s (Some e) = ExecuteTemplate L s e" for s
    by (simp add: rendered_def)
  have accessors:
    "(baseGitNodeConfiguration.Reference c = [] \<longrightarrow>
        getReferenceName L x msg evn = GetValue msg KeyRef)
     \<and> (baseGitNodeConfiguration.Reference c \<noteq> []
          \<and> \<not> CheckHasVar L (baseGitNodeConfiguration.Reference c) \<longrightarrow>
        getReferenceName L x msg evn = baseGitNodeConfiguration.Reference c)
     \<and> (baseGitNodeConfiguration.Repository c = [] \<longrightarrow>
        getRepository L x msg evn
          = GetValue msg
              (if baseGitNodeConfiguration.AuthType c = ''ssh-key''
                  \<or> baseGitNodeConfiguration.AuthType c = ''ssh''
               then KeyGitSshUrl else KeyGitHttpUrl))
     \<and> (baseGitNodeConfiguration.Repository c \<noteq> []
          \<and> \<not> CheckHasVar L (baseGitNodeConfiguration.Repository c) \<longrightarrow>
        getRepository L x msg evn = baseGitNodeConfiguration.Repository c)
     \<and> (baseGitNodeConfiguration.Directory c = [] \<longrightarrow>
        getWorkDir L x msg evn
          = Some (path_Join (GetValue msg KeyWorkDir)
                    (short_name (getRepository L x msg evn))))
     \<and> (baseGitNodeConfiguration.Directory c \<noteq> []
          \<and> \<not> CheckHasVar L (baseGitNodeConfiguration.Directory c) \<longrightarrow>
        getWorkDir L x msg evn
          = Some (path_Join (baseGitNodeConfiguration.Directory c)
                    (short_name (getRepository L x msg evn))))"
    unfolding assms(2)
    by (simp add: getReferenceName_eq getRepository_eq getWorkDir_base plain)
  have built:
    "(baseGitNodeConfiguration.Reference c \<noteq> [] \<longrightarrow>
        getReferenceName L x msg (Some e)
          = ExecuteTemplate L (baseGitNodeConfiguration.Reference c) e)
     \<and> (baseGitNodeConfiguration.Repository c \<noteq> [] \<longrightarrow>
        getRepository L x msg (Some e)
          = ExecuteTemplate L (baseGitNodeConfiguration.Repository c) e)
     \<and> (baseGitNodeConfiguration.Directory c \<noteq> [] \<longrightarrow>
        getWorkDir L x msg (Some e)
          = Some (path_Join (ExecuteTemplate L (baseGitNodeConfiguration.Directory c) e)
                    (short_name (getRepository L x msg (Some e)))))"
    unfolding assms(2)
    by (simp add: getReferenceName_eq getRepository_eq getWorkDir_base some)
  have clone:
    "has_markers L (baseGitNodeConfiguration.Reference bc)
       \<or> has_markers L (baseGitNodeConfiguration.Repository bc)
       \<or> has_markers L (baseGitNodeConfiguration.Directory bc) \<Longrightarrow> GitCloneNode.hasVar cl"
    by (rule clone_flag [OF assms(3,4)])
  have push:
    "has_markers L (baseGitNodeConfiguration.Repository bp)
       \<or> has_markers L (baseGitNodeConfiguration.Directory bp) \<Longrightarrow> GitPushNode.hasVar pu"
    by (rule push_flag [OF assms(5,6)])
  have commit:
    "has_markers L (baseGitNodeConfiguration.Directory bm) \<Longrightarrow> GitCommitNode.hasVar cm"
    by (rule commit_flag [OF assms(7,8)])
  have tag:
    "has_markers L (baseGitNodeConfiguration.Directory bt) \<Longrightarrow> GitCreateTagNode.hasVar tg"
    by (rule tag_flag [OF assms(9,10)])
  have nodes:
    "(has_markers L (baseGitNodeConfiguration.Reference bc) \<longrightarrow>
        getReferenceName L (GitCloneNode.base cl) msg (build_evn (GitCloneNode.hasVar cl) msg)
          = ExecuteTemplate L (baseGitNodeConfiguration.Reference bc) (GetEvnAndMetadata msg))
     \<and> (has_markers L (baseGitNodeConfiguration.Repository bc) \<longrightarrow>
        getRepository L (GitCloneNode.base cl) msg (build_evn (GitCloneNode.hasVar cl) msg)
          = ExecuteTemplate L (baseGitNodeConfiguration.Repository bc) (GetEvnAndMetadata msg))
     \<and> (has_markers L (baseGitNodeConfiguration.Directory bc) \<longrightarrow>
        getWorkDir L (GitCloneNode.base cl) msg (build_evn (GitCloneNode.hasVar cl) msg)
          = Some (path_Join
              (ExecuteTemplate L (baseGitNodeConfiguration.Directory bc) (GetEvnAndMetadata msg))
              (short_name (getRepository L (GitCloneNode.base cl) msg
                 (build_evn (GitCloneNode.hasVar cl) msg)))))
     \<and> (has_markers L (baseGitNodeConfiguration.Repository bp) \<longrightarrow>
        getRepository L (GitPushNode.base pu) msg (build_evn (GitPushNode.hasVar pu) msg)
          = ExecuteTemplate L (baseGitNodeConfiguration.Repository bp) (GetEvnAndMetadata msg))
     \<and> (has_markers L (baseGitNodeConfiguration.Directory bp) \<longrightarrow>
        getWorkDir L (GitPushNode.base pu) msg (build_evn (GitPushNode.hasVar pu) msg)
          = Some (path_Join
              (ExecuteTemplate L (baseGitNodeConfiguration.Directory bp) (GetEvnAndMetadata msg))
              (short_name (getRepository L (GitPushNode.base pu) msg
                 (build_evn (GitPushNode.hasVar pu) msg)))))
     \<and> (has_markers L (baseGitNodeConfiguration.Directory bm) \<longrightarrow>
        getWorkDir L (GitCommitNode.base cm) msg (build_evn (GitCommitNode.hasVar cm) msg)
          = Some (path_Join
              (ExecuteTemplate L (baseGitNodeConfiguration.Directory bm) (GetEvnAndMetadata msg))
              (short_name (getRepository L (GitCommitNode.base cm) msg
                 (build_evn (GitCommitNode.hasVar cm) msg)))))
     \<and> (has_markers L (baseGitNodeConfiguration.Directory bt) \<longrightarrow>
        getWorkDir L (GitCreateTagNode.base tg) msg
            (build_evn (GitCreateTagNode.hasVar tg) msg)
          = Some (path_Join
              (ExecuteTemplate L (baseGitNodeConfiguration.Directory bt) (GetEvnAndMetadata msg))
              (short_name (getRepository L (GitCreateTagNode.base tg) msg
                 (build_evn (GitCreateTagNode.hasVar tg) msg)))))"
    using clone push commit tag
    unfolding assms(4,6,8,10)
    by (auto simp: has_markers_def getReferenceName_eq getRepository_eq getWorkDir_base
          rendered_built)
  show ?thesis
    using accessors nodes built by blast
qed

lemma render_scan_open: "CHR ''}'' \<notin> set s \<Longrightarrow> render_scan f (Some k) s = ''${'' @ k @ s"
  by (induction s arbitrary: k) auto

lemma render_scan_no_close: "CHR ''}'' \<notin> set s \<Longrightarrow> render_scan f None s = s"
proof (induction s)
  case Nil
  show ?case by simp
next
  case (Cons c cs)
  then show ?case
    by (cases cs) (auto simp: render_scan_open)
qed

lemma render_scan_no_open: "\<not> has_open s \<Longrightarrow> render_scan f None s = s"
proof (induction s)
  case Nil
  show ?case by simp
next
  case (Cons c cs)
  then show ?case
    by (cases cs) auto
qed

lemma renders_plain_stdLib: "renders_plain stdLib"
  unfolding renders_plain_def stdLib_simps
  using render_scan_no_close render_scan_no_open by blast

lemma marker_examples:
  "CheckHasVar stdLib ''${metadata.base}''"
  "CheckHasVar stdLib ''${metadata.ref}''"
  "CheckHasVar stdLib ''${metadata.gitHttpUrl}''"
  "CheckHasVar stdLib ''${metadata.since}''"
  "\<not> CheckHasVar stdLib ''refs/heads/main''"
  "\<not> CheckHasVar stdLib ''https://example/app.git''"
  "\<not> CheckHasVar stdLib ''/work''"
  "\<not> CheckHasVar stdLib []"
  by (simp_all add: stdLib_simps)

lemma render_examples:
  "ExecuteTemplate stdLib ''${metadata.base}'' (GetEvnAndMetadata markerMsg) = ''/srv''"
  "ExecuteTemplate stdLib ''${metadata.ref}'' (GetEvnAndMetadata markerMsg) = ''dev''"
  "ExecuteTemplate stdLib ''${metadata.gitHttpUrl}'' (GetEvnAndMetadata markerMsg)
     = ''https://example/repo.git''"
  "ExecuteTemplate stdLib ''${metadata.since}'' (GetEvnAndMetadata markerMsg) = []"
  "ExecuteTemplate stdLib [] (GetEvnAndMetadata markerMsg) = []"
  by (simp_all add: stdLib_simps lookup_key_def markerMsg_def scenarioMsg_def
        GetValue_PutValue GetValue_emptyMsg key_defs)

lemma render_literals:
  "ExecuteTemplate stdLib ''refs/heads/main'' e = ''refs/heads/main''"
  "ExecuteTemplate stdLib ''https://example/app.git'' e = ''https://example/app.git''"
  "ExecuteTemplate stdLib ''/work'' e = ''/work''"
  by (simp_all add: stdLib_simps)

lemma join_examples:
  "path_Join ''/srv'' (short_name ''https://example/repo.git'') = ''/srv/repo''"
  "path_Join ''/work'' (short_name ''https://example/app.git'') = ''/work/app''"
  "path_Join ''${metadata.base}'' (short_name ''https://example/repo.git'')
     = ''${metadata.base}/repo''"
  by (simp_all add: short_name_eval basename_def TrimSuffix_def HasSuffix_def path_Join_def
        path_Clean_def)

lemma markerMsg_values:
  "GetValue markerMsg KeyWorkDir = ''/base''"
  "GetValue markerMsg KeyRef = ''dev''"
  "GetValue markerMsg KeyGitHttpUrl = ''https://example/repo.git''"
  "GetValue scenarioMsg KeyWorkDir = ''/base''"
  "GetValue scenarioMsg KeyRef = ''dev''"
  "GetValue scenarioMsg KeyGitHttpUrl = ''https://example/repo.git''"
  by (simp_all add: markerMsg_def scenarioMsg_def GetValue_PutValue GetValue_emptyMsg key_defs)

lemma node_fields:
  "baseGitNodeConfiguration.Reference (baseGitNode.Config (authNode t p)) = []"
  "baseGitNodeConfiguration.Repository (baseGitNode.Config (authNode t p)) = []"
  "baseGitNodeConfiguration.Directory (baseGitNode.Config (authNode t p)) = []"
  "baseGitNodeConfiguration.AuthType (baseGitNode.Config (authNode t p)) = t"
  "baseGitNodeConfiguration.Reference (baseGitNode.Config literalNode) = ''refs/heads/main''"
  "baseGitNodeConfiguration.Repository (baseGitNode.Config literalNode)
     = ''https://example/app.git''"
  "baseGitNodeConfiguration.Directory (baseGitNode.Config literalNode) = ''/work''"
  "baseGitNodeConfiguration.Reference (baseGitNode.Config markerNode) = ''${metadata.ref}''"
  "baseGitNodeConfiguration.Repository (baseGitNode.Config markerNode)
     = ''${metadata.gitHttpUrl}''"
  "baseGitNodeConfiguration.Directory (baseGitNode.Config markerNode) = ''${metadata.base}''"
  "baseGitNodeConfiguration.AuthType (baseGitNode.Config markerNode) = []"
  by (simp_all add: authNode_def literalNode_def markerNode_def
        baseGitNodeConfiguration_zero_def)

lemma marker_nodes:
  "GitCloneNode.base markerCloneNode = markerNode"
  "GitPushNode.base markerPushNode = markerNode"
  "GitCommitNode.base markerCommitNode = markerNode"
  "GitCreateTagNode.base markerTagNode = markerNode"
  "GitCloneNode.hasVar markerCloneNode"
  "GitPushNode.hasVar markerPushNode"
  "GitCommitNode.hasVar markerCommitNode"
  "GitCreateTagNode.hasVar markerTagNode"
  by (simp_all add: markerCloneNode_def markerPushNode_def markerCommitNode_def
        markerTagNode_def markerNode_def markerConf_def emptyConfiguration_def
        GitCloneNode_Init_def GitCloneNode_New_def Map2Struct_clone_def
        GitPushNode_Init_def GitPushNode_New_def Map2Struct_push_def
        GitCommitNode_Init_def GitCommitNode_New_def Map2Struct_commit_def
        GitCreateTagNode_Init_def GitCreateTagNode_New_def Map2Struct_tag_def
        Map2Struct_base_def baseGitNodeConfiguration_zero_def Signature_zero_def field_def
        stdLib_simps Let_def)

lemma markerNode_resolved:
  "getReferenceName stdLib markerNode markerMsg (Some (GetEvnAndMetadata markerMsg)) = ''dev''"
  "getRepository stdLib markerNode markerMsg (Some (GetEvnAndMetadata markerMsg))
     = ''https://example/repo.git''"
  "getWorkDir stdLib markerNode markerMsg (Some (GetEvnAndMetadata markerMsg))
     = Some ''/srv/repo''"
  by (simp_all add: getReferenceName_eq getRepository_eq getWorkDir_base node_fields
        rendered_def render_examples join_examples)

theorem config_precedence_witness:
  "renders_plain stdLib
   \<and> getReferenceName stdLib (authNode ''token'' []) scenarioMsg None = ''dev''
   \<and> getRepository stdLib (authNode ''token'' []) scenarioMsg None
       = ''https://example/repo.git''
   \<and> getWorkDir stdLib (authNode ''token'' []) scenarioMsg None = Some ''/base/repo''
   \<and> \<not> CheckHasVar stdLib (baseGitNodeConfiguration.Reference (baseGitNode.Config literalNode))
   \<and> getReferenceName stdLib literalNode markerMsg (Some (GetEvnAndMetadata markerMsg))
       = ''refs/heads/main''
   \<and> getRepository stdLib literalNode markerMsg (Some (GetEvnAndMetadata markerMsg))
       = ''https://example/app.git''
   \<and> getWorkDir stdLib literalNode markerMsg (Some (GetEvnAndMetadata markerMsg))
       = Some ''/work/app''
   \<and> has_markers stdLib (baseGitNodeConfiguration.Reference (baseGitNode.Config markerNode))
   \<and> has_markers stdLib (baseGitNodeConfiguration.Repository (baseGitNode.Config markerNode))
   \<and> has_markers stdLib (baseGitNodeConfiguration.Directory (baseGitNode.Config markerNode))
   \<and> GitCloneNode.base markerCloneNode = markerNode
   \<and> GitPushNode.base markerPushNode = markerNode
   \<and> GitCommitNode.base markerCommitNode = markerNode
   \<and> GitCreateTagNode.base markerTagNode = markerNode
   \<and> getReferenceName stdLib (GitCloneNode.base markerCloneNode) markerMsg
        (build_evn (GitCloneNode.hasVar markerCloneNode) markerMsg) = ''dev''
   \<and> getRepository stdLib (GitCloneNode.base markerCloneNode) markerMsg
        (build_evn (GitCloneNode.hasVar markerCloneNode) markerMsg)
       = ''https://example/repo.git''
   \<and> getWorkDir stdLib (GitCloneNode.base markerCloneNode) markerMsg
        (build_evn (GitCloneNode.hasVar markerCloneNode) markerMsg) = Some ''/srv/repo''
   \<and> getRepository stdLib (GitPushNode.base markerPushNode) markerMsg
        (build_evn (GitPushNode.hasVar markerPushNode) markerMsg)
       = ''https://example/repo.git''
   \<and> getWorkDir stdLib (GitPushNode.base markerPushNode) markerMsg
        (build_evn (GitPushNode.hasVar markerPushNode) markerMsg) = Some ''/srv/repo''
   \<and> getWorkDir stdLib (GitCommitNode.base markerCommitNode) markerMsg
        (build_evn (GitCommitNode.hasVar markerCommitNode) markerMsg) = Some ''/srv/repo''
   \<and> getWorkDir stdLib (GitCreateTagNode.base markerTagNode) markerMsg
        (build_evn (GitCreateTagNode.hasVar markerTagNode) markerMsg) = Some ''/srv/repo''"
  using config_precedence [where L = stdLib and x = "authNode ''token'' []"
          and msg = scenarioMsg and evn = None and conf = emptyConfiguration,
          OF renders_plain_stdLib refl refl refl refl refl refl refl refl refl]
        config_precedence [where L = stdLib and x = literalNode and msg = markerMsg
          and evn = "Some (GetEvnAndMetadata markerMsg)" and conf = emptyConfiguration,
          OF renders_plain_stdLib refl refl refl refl refl refl refl refl refl]
        config_precedence [where L = stdLib and x = markerNode and msg = markerMsg
          and evn = "Some (GetEvnAndMetadata markerMsg)"
          and e = "GetEvnAndMetadata markerMsg" and conf = markerConf,
          OF renders_plain_stdLib refl refl refl refl refl refl refl refl refl]
  by (simp add: renders_plain_stdLib node_fields marker_examples render_examples
        render_literals join_examples markerMsg_values scenario_join has_markers_def
        markerCloneNode_def [symmetric] markerPushNode_def [symmetric]
        markerCommitNode_def [symmetric] markerTagNode_def [symmetric]
        marker_nodes markerNode_resolved build_evn_def)

text \<open>
  C1 as stated fails for the work directory: with an empty directory field and the
  metadata \<open>workDir = /base\<close>, the resolved work directory is \<open>/base/repo\<close>, not the
  metadata value.
\<close>

theorem work_directory_fallback_counterexample:
  "baseGitNodeConfiguration.Directory (baseGitNode.Config (authNode ''token'' [])) = []
   \<and> GetValue scenarioMsg KeyWorkDir = ''/base''
   \<and> getWorkDir stdLib (authNode ''token'' []) scenarioMsg None = Some ''/base/repo''
   \<and> getWorkDir stdLib (authNode ''token'' []) scenarioMsg None
       \<noteq> Some (GetValue scenarioMsg KeyWorkDir)"
  by (simp add: node_fields markerMsg_values getWorkDir_eq base_directory_def getRepository_def
        scenario_join)

section \<open>The flag of the log node\<close>

lemma markerDirLogNode_simps:
  "baseGitNodeConfiguration.Directory (baseGitNode.Config (GitLogNode.base markerDirLogNode))
     = ''${metadata.base}''"
  "baseGitNodeConfiguration.Repository (baseGitNode.Config (GitLogNode.base markerDirLogNode))
     = []"
  "baseGitNodeConfiguration.AuthType (baseGitNode.Config (GitLogNode.base markerDirLogNode))
     = []"
  "GitLogNode.hasVar markerDirLogNode = False"
  "startTimeTemplate markerDirLogNode = Some (NewTemplate [])"
  "endTimeTemplate markerDirLogNode = Some (NewTemplate [])"
  "Limit (GitLogNode.Config markerDirLogNode) = 10"
  by (simp_all add: markerDirLogNode_def GitLogNode_Init_def GitLogNode_New_def
        Map2Struct_log_def Map2Struct_base_def baseGitNodeConfiguration_zero_def field_def
        emptyConfiguration_def stdLib_simps Let_def)

lemma markerBothLogNode_simps:
  "baseGitNodeConfiguration.Directory (baseGitNode.Config (GitLogNode.base markerBothLogNode))
     = ''${metadata.base}''"
  "baseGitNodeConfiguration.Repository (baseGitNode.Config (GitLogNode.base markerBothLogNode))
     = []"
  "baseGitNodeConfiguration.AuthType (baseGitNode.Config (GitLogNode.base markerBothLogNode))
     = []"
  "GitLogNode.hasVar markerBothLogNode = True"
  "startTimeTemplate markerBothLogNode = Some (NewTemplate ''${metadata.since}'')"
  "endTimeTemplate markerBothLogNode = Some (NewTemplate [])"
  "Limit (GitLogNode.Config markerBothLogNode) = 10"
  by (simp_all add: markerBothLogNode_def GitLogNode_Init_def GitLogNode_New_def
        Map2Struct_log_def Map2Struct_base_def baseGitNodeConfiguration_zero_def field_def
        emptyConfiguration_def stdLib_simps Let_def)

lemma marker_log_workDir:
  "getWorkDir stdLib (GitLogNode.base markerDirLogNode) markerMsg None
     = Some ''${metadata.base}/repo''"
  "getWorkDir stdLib (GitLogNode.base markerBothLogNode) markerMsg
       (Some (GetEvnAndMetadata markerMsg)) = Some ''/srv/repo''"
  "derived_directory stdLib (GitLogNode.base markerDirLogNode) True markerMsg = ''/srv/repo''"
  by (simp_all add: getWorkDir_eq derived_directory_def base_directory_def getRepository_def
        rendered_def build_evn_def evn_PutValue_simps markerDirLogNode_simps markerBothLogNode_simps
        markerMsg_values render_examples join_examples)

text \<open>
  C7 fails on the code. A log node configured with the directory
  \<open>${metadata.base}\<close> and no start or end time has its flag unset, builds no
  environment and signals the work directory \<open>${metadata.base}/repo\<close>; with the
  environment built the directory is \<open>/srv/repo\<close>, and that is what the same node
  signals once its start time holds a marker too.
\<close>

theorem log_node_flag_changes_directory:
  "CheckHasVar stdLib (baseGitNodeConfiguration.Directory
       (baseGitNode.Config (GitLogNode.base markerDirLogNode)))
   \<and> \<not> GitLogNode.hasVar markerDirLogNode
   \<and> GitLogNode_OnMsg stdLib stdGit markerDirLogNode markerMsg
       = Returned [TellSuccess
           ((PutValue markerMsg KeyWorkDir ''${metadata.base}/repo'')
              \<lparr>DataType := ''JSON'', Data := ''h3;h2;h1;''\<rparr>)]
   \<and> derived_directory stdLib (GitLogNode.base markerDirLogNode) True markerMsg = ''/srv/repo''
   \<and> GitLogNode.hasVar markerBothLogNode
   \<and> GitLogNode_OnMsg stdLib stdGit markerBothLogNode markerMsg
       = Returned [TellSuccess
           ((PutValue markerMsg KeyWorkDir ''/srv/repo'')
              \<lparr>DataType := ''JSON'', Data := ''h3;h2;h1;''\<rparr>)]"
proof -
  have loop: "log_loop 0 0 10 0 threeCommits = map toLogMsg threeCommits"
    by (simp add: threeCommits_def out_of_range_iff inside_bounds_commitAt)
  have since: "Template_Execute stdLib (NewTemplate ''${metadata.since}'')
                 (Some (GetEvnAndMetadata (PutValue markerMsg KeyWorkDir ''/srv/repo''))) = []"
    by (simp add: stdLib_simps lookup_key_def markerMsg_def scenarioMsg_def GetValue_PutValue
          GetValue_emptyMsg key_defs)
  have blank: "Template_Execute stdLib (NewTemplate []) (Some e) = []" for e
    by (simp add: stdLib_simps)
  have one: "GitLogNode_OnMsg stdLib stdGit markerDirLogNode markerMsg
       = Returned [TellSuccess
           ((PutValue markerMsg KeyWorkDir ''${metadata.base}/repo'')
              \<lparr>DataType := ''JSON'', Data := ''h3;h2;h1;''\<rparr>)]"
    by (simp add: GitLogNode_OnMsg_def markerDirLogNode_simps marker_log_workDir build_evn_def evn_PutValue_simps
          stdLib_simps(3,6,8) stdGit_simps bare_date_def parse_time_def read_time_examples
          loop ToString_threeCommits Let_def)
  have two: "GitLogNode_OnMsg stdLib stdGit markerBothLogNode markerMsg
       = Returned [TellSuccess
           ((PutValue markerMsg KeyWorkDir ''/srv/repo'')
              \<lparr>DataType := ''JSON'', Data := ''h3;h2;h1;''\<rparr>)]"
    by (simp add: GitLogNode_OnMsg_def markerBothLogNode_simps marker_log_workDir build_evn_def evn_PutValue_simps
          since blank stdLib_simps(6,8) stdGit_simps bare_date_def parse_time_def read_time_examples
          loop ToString_threeCommits Let_def)
  show ?thesis
    by (simp add: one two markerDirLogNode_simps markerBothLogNode_simps marker_examples
          marker_log_workDir)
qed

section \<open>Signals and faults\<close>

lemma clone_signals_once: "\<exists>s. GitCloneNode_OnMsg L G x msg = Returned [s]"
  by (simp add: GitCloneNode_OnMsg_def getWorkDir_eq Let_def split: sum.splits option.splits)

lemma commit_signals_once: "\<exists>s. GitCommitNode_OnMsg L G x msg = Returned [s]"
  by (simp add: GitCommitNode_OnMsg_def getWorkDir_eq Let_def split: sum.splits option.splits)

lemma push_signals_once: "\<exists>s. GitPushNode_OnMsg L G x msg = Returned [s]"
  by (simp add: GitPushNode_OnMsg_def getWorkDir_eq Let_def split: sum.splits option.splits)

lemma log_signals_once:
  "startTimeTemplate x \<noteq> None \<Longrightarrow> endTimeTemplate x \<noteq> None \<Longrightarrow>
   \<exists>s. GitLogNode_OnMsg L G x msg = Returned [s]"
  by (auto simp: GitLogNode_OnMsg_def getWorkDir_eq Let_def split: sum.splits option.splits)

lemma ps_signals_once: "\<exists>s. PsNode_OnMsg H x msg = Returned [s]"
  by (simp add: PsNode_OnMsg_def Let_def)

lemma tag_signals_once:
  "nil_Reference_Hash G \<noteq> None \<Longrightarrow> \<exists>s. GitCreateTagNode_OnMsg L G x msg = Returned [s]"
  by (auto simp: GitCreateTagNode_OnMsg_def getWorkDir_eq head_Hash_def Let_def
        split: sum.splits option.splits)

text \<open>
  C8 fails on the code. In the create-tag node the error of \<open>r.Head()\<close> is not
  handled, and \<open>Hash\<close> is called on the nil reference it returned. Where that call
  reads through the nil pointer, the node panics and signals nothing; only where the
  library answers for a nil reference does the node go on to fetch the commit object
  and signal the failure of that fetch.
\<close>

theorem tag_head_failure:
  assumes "getWorkDir L (GitCreateTagNode.base x) msg
             (build_evn (GitCreateTagNode.hasVar x) msg) = Some workDir"
    and "PlainOpen G workDir = Inr r"
    and "Head G r = Inl err"
  shows "(nil_Reference_Hash G = None \<longrightarrow>
            GitCreateTagNode_OnMsg L G x msg = Panicked [])
       \<and> (\<forall>h e. nil_Reference_Hash G = Some h \<and> CommitObject G r h = Inl e \<longrightarrow>
            GitCreateTagNode_OnMsg L G x msg
              = Returned [TellFailure (PutValue msg KeyWorkDir workDir) e])"
  using assms by (simp add: GitCreateTagNode_OnMsg_def head_Hash_def Let_def)

lemma nilSafeGit_simps:
  "PlainOpen nilSafeGit dir = Inr (Repository_at dir)"
  "Head nilSafeGit r = Inl (LibError ''reference not found'')"
  "nil_Reference_Hash nilSafeGit = Some ''0000''"
  "CommitObject nilSafeGit r h = Inl (LibError ''object not found'')"
  by (simp_all add: nilSafeGit_def stdGit_def)

theorem tag_head_failure_witness:
  "getWorkDir stdLib (GitCreateTagNode.base tagNode) scenarioMsg
       (build_evn (GitCreateTagNode.hasVar tagNode) scenarioMsg) = Some ''/base/repo''
   \<and> PlainOpen stdGit ''/base/repo'' = Inr (Repository_at ''/base/repo'')
   \<and> Head stdGit (Repository_at ''/base/repo'') = Inl (LibError ''reference not found'')
   \<and> nil_Reference_Hash stdGit = None
   \<and> GitCreateTagNode_OnMsg stdLib stdGit tagNode scenarioMsg = Panicked []
   \<and> nil_Reference_Hash nilSafeGit = Some ''0000''
   \<and> CommitObject nilSafeGit (Repository_at ''/base/repo'') ''0000''
       = Inl (LibError ''object not found'')
   \<and> GitCreateTagNode_OnMsg stdLib nilSafeGit tagNode scenarioMsg
       = Returned [TellFailure (PutValue scenarioMsg KeyWorkDir ''/base/repo'')
                     (LibError ''object not found'')]"
  using tag_head_failure [of stdLib tagNode scenarioMsg "''/base/repo''" stdGit
          "Repository_at ''/base/repo''" "LibError ''reference not found''"]
        tag_head_failure [of stdLib tagNode scenarioMsg "''/base/repo''" nilSafeGit
          "Repository_at ''/base/repo''" "LibError ''reference not found''"]
  by (simp add: tagNode_simps build_evn_def evn_PutValue_simps stdGit_simps nilSafeGit_simps)

section \<open>Host metrics\<close>

















end
